theory Spec2Isabelle
  imports Main "HOL-Library.Word"
begin

unbundle bit_operations_syntax

section \<open>Constants of fs.c\<close>

type_synonym byte = "8 word"
type_synonym u32 = "32 word"
type_synonym block = "byte list"

text \<open>
  \<^verbatim>\<open>#define DIRMODE (S_IFDIR | 0755)\<close> and \<^verbatim>\<open>#define REGMODE (S_IFREG | 0644)\<close>,
  with \<^verbatim>\<open>S_IFDIR = 0040000\<close>, \<^verbatim>\<open>S_IFREG = 0100000\<close>, \<^verbatim>\<open>S_IFMT = 0170000\<close>.
\<close>

definition DIRMODE :: u32 where "DIRMODE = 16877"
definition REGMODE :: u32 where "REGMODE = 33188"

definition S_ISDIR :: "u32 \<Rightarrow> bool" where
  "S_ISDIR m = (m AND 61440 = 16384)"

definition MAX_FILENAME_LEN :: nat where "MAX_FILENAME_LEN = 24"
definition INODE_COUNT :: nat where "INODE_COUNT = 32768"
definition DIRECT_POINTERS :: nat where "DIRECT_POINTERS = 12"
definition INDIRECT_POINTERS :: nat where "INDIRECT_POINTERS = 2"

text \<open>\<^verbatim>\<open>sizeof(inode_t)\<close>: nineteen \<^verbatim>\<open>uint32_t\<close> fields, no padding.\<close>
definition INODE_SIZE :: nat where "INODE_SIZE = 76"

text \<open>\<^verbatim>\<open>sizeof(dir_entry_t)\<close>: \<^verbatim>\<open>char name[26]\<close>, two bytes of padding,
  \<^verbatim>\<open>uint32_t inode_num\<close> at offset 28.\<close>
definition DIRENT_SIZE :: nat where "DIRENT_SIZE = 32"
definition DIRENT_INO_OFFSET :: nat where "DIRENT_INO_OFFSET = 28"

definition SUPERBLOCK_BLOCK :: int where "SUPERBLOCK_BLOCK = 0"
definition INODE_BITMAP_BLOCK :: int where "INODE_BITMAP_BLOCK = 1"
definition DATA_BITMAP_START_BLOCK :: int where "DATA_BITMAP_START_BLOCK = 2"
definition INODE_TABLE_START_BLOCK :: int where "INODE_TABLE_START_BLOCK = 4"

text \<open>The values of \<^verbatim>\<open>errno.h\<close> that fs.c returns negated.\<close>
definition ENOENT :: int where "ENOENT = 2"
definition ENOSPC :: int where "ENOSPC = 28"
definition ENAMETOOLONG :: int where "ENAMETOOLONG = 36"

section \<open>The block device\<close>

text \<open>
  \<^verbatim>\<open>BLOCK_SIZE\<close> and \<^verbatim>\<open>BLOCK_NUM\<close> come from disk.h, which fs.c includes; they are
  parameters of every function below.
\<close>

record geometry =
  BLOCK_SIZE :: nat
  BLOCK_NUM :: nat

definition INODES_PER_BLOCK :: "geometry \<Rightarrow> nat" where
  "INODES_PER_BLOCK g = BLOCK_SIZE g div INODE_SIZE"

definition ENTRIES_PER_BLOCK :: "geometry \<Rightarrow> nat" where
  "ENTRIES_PER_BLOCK g = BLOCK_SIZE g div DIRENT_SIZE"

definition POINTERS_PER_BLOCK :: "geometry \<Rightarrow> nat" where
  "POINTERS_PER_BLOCK g = BLOCK_SIZE g div 4"

record superblock =
  num_inodes :: int
  num_data_blocks :: int
  inode_table_blocks :: int
  data_bitmap_blocks :: int
  data_blocks_start :: int

text \<open>The state fs.c works on: the global \<^verbatim>\<open>sb\<close> and the content of the device.\<close>

record fs_state =
  sb :: superblock
  disk :: "nat \<Rightarrow> block"

text \<open>
  Modelled from the spec: \<^verbatim>\<open>disk_read\<close> and \<^verbatim>\<open>disk_write\<close> of disk.h, whose
  definitions fs.c only calls. They exchange one block of \<^verbatim>\<open>BLOCK_SIZE\<close> bytes with
  the device, whose blocks are numbered from 0 to \<^verbatim>\<open>BLOCK_NUM - 1\<close>, and return 0 on
  success and nonzero on failure; a block number outside the device is the failure.
  \<open>disk_read\<close> gives \<open>None\<close> where the C function returns nonzero.
\<close>

definition valid_block :: "geometry \<Rightarrow> int \<Rightarrow> bool" where
  "valid_block g n = (0 \<le> n \<and> n < int (BLOCK_NUM g))"

definition disk_read :: "geometry \<Rightarrow> fs_state \<Rightarrow> int \<Rightarrow> block option" where
  "disk_read g s n = (if valid_block g n then Some (disk s (nat n)) else None)"

definition disk_write :: "geometry \<Rightarrow> fs_state \<Rightarrow> int \<Rightarrow> block \<Rightarrow> int \<times> fs_state" where
  "disk_write g s n buf =
     (if valid_block g n then (0, s\<lparr>disk := (disk s)(nat n := buf)\<rparr>) else (1, s))"

section \<open>Byte layout of the structures\<close>

text \<open>\<^verbatim>\<open>memcpy\<close> of a \<^verbatim>\<open>uint32_t\<close> to and from a byte buffer, little-endian.\<close>

definition le32 :: "u32 \<Rightarrow> byte list" where
  "le32 w = [ucast w, ucast (drop_bit 8 w), ucast (drop_bit 16 w), ucast (drop_bit 24 w)]"

definition rd32 :: "byte list \<Rightarrow> nat \<Rightarrow> u32" where
  "rd32 bs k = ucast (bs ! k) OR push_bit 8 (ucast (bs ! (k + 1)))
               OR push_bit 16 (ucast (bs ! (k + 2))) OR push_bit 24 (ucast (bs ! (k + 3)))"

text \<open>\<^verbatim>\<open>memcpy(dst + off, src, length src)\<close> into a buffer.\<close>

definition memcpy_at :: "byte list \<Rightarrow> nat \<Rightarrow> byte list \<Rightarrow> byte list" where
  "memcpy_at dst off src = take off dst @ src @ drop (off + length src) dst"

record inode =
  size :: u32
  atime :: u32
  mtime :: u32
  ctime :: u32
  mode :: u32
  direct_block_pointer :: "u32 list"
  indirect_block_pointer :: "u32 list"

definition inode_ok :: "inode \<Rightarrow> bool" where
  "inode_ok i = (length (direct_block_pointer i) = DIRECT_POINTERS
                 \<and> length (indirect_block_pointer i) = INDIRECT_POINTERS)"

definition encode_inode :: "inode \<Rightarrow> byte list" where
  "encode_inode i =
     concat (map le32 ([size i, atime i, mtime i, ctime i, mode i]
                       @ direct_block_pointer i @ indirect_block_pointer i))"

definition decode_inode :: "byte list \<Rightarrow> inode" where
  "decode_inode bs =
     \<lparr>size = rd32 bs 0, atime = rd32 bs 4, mtime = rd32 bs 8, ctime = rd32 bs 12,
      mode = rd32 bs 16,
      direct_block_pointer = map (\<lambda>k. rd32 bs (20 + 4 * k)) [0..<DIRECT_POINTERS],
      indirect_block_pointer = map (\<lambda>k. rd32 bs (68 + 4 * k)) [0..<INDIRECT_POINTERS]\<rparr>"

text \<open>The superblock is five \<^verbatim>\<open>int\<close> fields, twenty bytes.\<close>

definition encode_sb :: "superblock \<Rightarrow> byte list" where
  "encode_sb b =
     concat (map (\<lambda>v. le32 (word_of_int v))
       [num_inodes b, num_data_blocks b, inode_table_blocks b,
        data_bitmap_blocks b, data_blocks_start b])"

definition decode_sb :: "byte list \<Rightarrow> superblock" where
  "decode_sb bs =
     \<lparr>num_inodes = sint (rd32 bs 0), num_data_blocks = sint (rd32 bs 4),
      inode_table_blocks = sint (rd32 bs 8), data_bitmap_blocks = sint (rd32 bs 12),
      data_blocks_start = sint (rd32 bs 16)\<rparr>"

section \<open>The inode bitmap: \<^verbatim>\<open>alloc_inode\<close> and \<^verbatim>\<open>free_inode\<close>\<close>

text \<open>
  \<^verbatim>\<open>(bitmap[i / 8] >> (i % 8)) & 1\<close> and \<^verbatim>\<open>bitmap[i / 8] |= (1 << (i % 8))\<close>,
  \<^verbatim>\<open>bitmap[n / 8] &= ~(1 << (n % 8))\<close>.
\<close>

definition bitmap_test :: "block \<Rightarrow> nat \<Rightarrow> bool" where
  "bitmap_test bitmap i = bit (bitmap ! (i div 8)) (i mod 8)"

definition bitmap_set :: "block \<Rightarrow> nat \<Rightarrow> block" where
  "bitmap_set bitmap i = bitmap[i div 8 := (bitmap ! (i div 8)) OR push_bit (i mod 8) 1]"

definition bitmap_clear :: "block \<Rightarrow> nat \<Rightarrow> block" where
  "bitmap_clear bitmap i = bitmap[i div 8 := (bitmap ! (i div 8)) AND NOT (push_bit (i mod 8) 1)]"

text \<open>
  The loop of \<^verbatim>\<open>alloc_inode\<close>, \<^verbatim>\<open>for (int i = 0; i < sb.num_inodes; ++i)\<close>, from
  index \<open>i\<close> on: the first index whose bit is clear, if there is one below \<open>n\<close>.
\<close>

function alloc_scan :: "block \<Rightarrow> nat \<Rightarrow> nat \<Rightarrow> nat option" where
  "alloc_scan bitmap n i =
     (if i < n then (if \<not> bitmap_test bitmap i then Some i else alloc_scan bitmap n (Suc i))
      else None)"
  by pat_completeness auto
termination
  by (relation "measure (\<lambda>(bitmap, n, i). n - i)") auto

declare alloc_scan.simps [simp del]

text \<open>
  \<^verbatim>\<open>alloc_inode\<close> and \<^verbatim>\<open>free_inode\<close> ignore what \<^verbatim>\<open>disk_read\<close> returns: where the
  read fails, the local array \<^verbatim>\<open>bitmap\<close> keeps its indeterminate content, here the
  argument \<open>uninit\<close>. What \<^verbatim>\<open>disk_write\<close> returns is ignored as well. An index
  \<open>i div 8\<close> at or beyond \<^verbatim>\<open>BLOCK_SIZE\<close> is outside the array in the source, and so
  is the index of a negative \<open>inode_num\<close> in \<^verbatim>\<open>free_inode\<close>, which the model
  takes as 0: the functions are meant for \<open>0 \<le> inode_num < 8 * BLOCK_SIZE\<close>.
\<close>

definition alloc_inode :: "geometry \<Rightarrow> block \<Rightarrow> fs_state \<Rightarrow> int \<times> fs_state" where
  "alloc_inode g uninit s =
     (let bitmap = (case disk_read g s INODE_BITMAP_BLOCK of Some b \<Rightarrow> b | None \<Rightarrow> uninit)
      in case alloc_scan bitmap (nat (num_inodes (sb s))) 0 of
           Some i \<Rightarrow> (int i, snd (disk_write g s INODE_BITMAP_BLOCK (bitmap_set bitmap i)))
         | None \<Rightarrow> (- ENOSPC, s))"

definition free_inode :: "geometry \<Rightarrow> block \<Rightarrow> fs_state \<Rightarrow> int \<Rightarrow> fs_state" where
  "free_inode g uninit s inode_num =
     (let bitmap = (case disk_read g s INODE_BITMAP_BLOCK of Some b \<Rightarrow> b | None \<Rightarrow> uninit)
      in snd (disk_write g s INODE_BITMAP_BLOCK (bitmap_clear bitmap (nat inode_num))))"

section \<open>Operations that fs.c leaves as stubs\<close>

text \<open>
  \<^verbatim>\<open>fs_read\<close> and \<^verbatim>\<open>fs_write\<close> log their arguments and return 0. Neither touches the
  buffer it is given nor the device.
\<close>

definition fs_read ::
  "geometry \<Rightarrow> fs_state \<Rightarrow> byte list \<Rightarrow> byte list \<Rightarrow> nat \<Rightarrow> int \<Rightarrow> int \<times> byte list \<times> fs_state" where
  "fs_read g s path buffer sz offset = (0, buffer, s)"

definition fs_write ::
  "geometry \<Rightarrow> fs_state \<Rightarrow> byte list \<Rightarrow> byte list \<Rightarrow> nat \<Rightarrow> int \<Rightarrow> int \<times> fs_state" where
  "fs_write g s path buffer sz offset = (0, s)"

record statvfs =
  f_bsize :: nat
  f_blocks :: nat
  f_bfree :: nat
  f_bavail :: nat
  f_files :: nat
  f_ffree :: nat
  f_favail :: nat
  f_namemax :: nat

definition fs_statfs :: "geometry \<Rightarrow> fs_state \<Rightarrow> byte list \<Rightarrow> int \<times> statvfs" where
  "fs_statfs g s path =
     (0, \<lparr>f_bsize = 0, f_blocks = 0, f_bfree = 0, f_bavail = 0,
          f_files = 0, f_ffree = 0, f_favail = 0, f_namemax = 0\<rparr>)"

section \<open>The inode table: \<^verbatim>\<open>read_inode\<close> and \<^verbatim>\<open>write_inode\<close>\<close>

text \<open>
  \<^verbatim>\<open>INODES_PER_BLOCK\<close> is \<^verbatim>\<open>BLOCK_SIZE / sizeof(inode_t)\<close>, of type \<^verbatim>\<open>size_t\<close>, so
  \<^verbatim>\<open>inode_num / INODES_PER_BLOCK\<close> and \<^verbatim>\<open>inode_num % INODES_PER_BLOCK\<close> convert the
  \<^verbatim>\<open>int inode_num\<close> to \<^verbatim>\<open>size_t\<close> first (64 bits: a negative number becomes
  \<open>2 ^ 64 + inode_num\<close>), and the sum with \<^verbatim>\<open>INODE_TABLE_START_BLOCK\<close> is cut to the
  32 bits of \<^verbatim>\<open>int block_num\<close>. A \<^verbatim>\<open>BLOCK_SIZE\<close> below \<^verbatim>\<open>sizeof(inode_t)\<close> would make
  the source divide by zero.
\<close>

definition size_t_of_int :: "int \<Rightarrow> nat" where
  "size_t_of_int n = nat (n mod 2 ^ 64)"

definition int_of_size_t :: "nat \<Rightarrow> int" where
  "int_of_size_t x =
     (let r = int (x mod 2 ^ 32) in if r < 2 ^ 31 then r else r - 2 ^ 32)"

definition inode_block_num :: "geometry \<Rightarrow> int \<Rightarrow> int" where
  "inode_block_num g inode_num =
     int_of_size_t ((nat INODE_TABLE_START_BLOCK
                     + size_t_of_int inode_num div INODES_PER_BLOCK g) mod 2 ^ 64)"

definition inode_offset_in_block :: "geometry \<Rightarrow> int \<Rightarrow> nat" where
  "inode_offset_in_block g inode_num = size_t_of_int inode_num mod INODES_PER_BLOCK g"

text \<open>\<open>None\<close> is the return value \<open>-1\<close>, which leaves \<^verbatim>\<open>*inode\<close> as it was.\<close>

definition read_inode :: "geometry \<Rightarrow> fs_state \<Rightarrow> int \<Rightarrow> inode option" where
  "read_inode g s inode_num =
     (if inode_num \<ge> int INODE_COUNT then None
      else case disk_read g s (inode_block_num g inode_num) of
             None \<Rightarrow> None
           | Some block \<Rightarrow>
               Some (decode_inode
                 (take INODE_SIZE (drop (inode_offset_in_block g inode_num * INODE_SIZE) block))))"

definition write_inode :: "geometry \<Rightarrow> fs_state \<Rightarrow> int \<Rightarrow> inode \<Rightarrow> int \<times> fs_state" where
  "write_inode g s inode_num ino =
     (if inode_num \<ge> int INODE_COUNT then (- 1, s)
      else case disk_read g s (inode_block_num g inode_num) of
             None \<Rightarrow> (- 1, s)
           | Some block \<Rightarrow>
               (case disk_write g s (inode_block_num g inode_num)
                       (memcpy_at block (inode_offset_in_block g inode_num * INODE_SIZE)
                          (encode_inode ino)) of
                  (r, s') \<Rightarrow> if r \<noteq> 0 then (- 1, s') else (0, s')))"

text \<open>\<^verbatim>\<open>update_timestamp\<close>; \<open>now\<close> is the \<^verbatim>\<open>tv_sec\<close> that \<^verbatim>\<open>clock_gettime\<close> gives.\<close>

definition update_timestamp :: "int \<Rightarrow> inode \<Rightarrow> bool \<Rightarrow> bool \<Rightarrow> bool \<Rightarrow> inode" where
  "update_timestamp now ino access modify change =
     (let i1 = (if access then ino\<lparr>atime := word_of_int now\<rparr> else ino);
          i2 = (if modify then i1\<lparr>mtime := word_of_int now\<rparr> else i1)
      in if change then i2\<lparr>ctime := word_of_int now\<rparr> else i2)"

section \<open>\<^verbatim>\<open>fs_mount\<close>\<close>

definition ceil_div :: "nat \<Rightarrow> nat \<Rightarrow> nat" where
  "ceil_div a b = (a + b - 1) div b"

text \<open>The loop \<^verbatim>\<open>for (int i = INODE_BITMAP_BLOCK; i < sb.data_blocks_start; ++i)\<close>.\<close>

function zero_blocks :: "geometry \<Rightarrow> block \<Rightarrow> fs_state \<Rightarrow> int \<Rightarrow> int \<Rightarrow> fs_state" where
  "zero_blocks g block s i n =
     (if i < n then zero_blocks g block (snd (disk_write g s i block)) (i + 1) n else s)"
  by pat_completeness auto
termination
  by (relation "measure (\<lambda>(g, block, s, i, n). nat (n - i))") auto

declare zero_blocks.simps [simp del]

text \<open>\<^verbatim>\<open>memset(&root_inode, 0, sizeof(inode_t))\<close>.\<close>

definition zero_inode :: inode where
  "zero_inode = \<lparr>size = 0, atime = 0, mtime = 0, ctime = 0, mode = 0,
                 direct_block_pointer = replicate DIRECT_POINTERS 0,
                 indirect_block_pointer = replicate INDIRECT_POINTERS 0\<rparr>"

text \<open>
  With \<open>init_flag = 0\<close> the source reads block 0 over \<^verbatim>\<open>sb\<close>, whose twenty bytes are the
  first twenty of the block (the rest of the block is written past the structure); a
  failed read leaves \<^verbatim>\<open>sb\<close> as it was.
\<close>

definition fs_mount :: "geometry \<Rightarrow> block \<Rightarrow> int \<Rightarrow> fs_state \<Rightarrow> int \<Rightarrow> int \<times> fs_state" where
  "fs_mount g uninit now s init_flag =
     (if init_flag \<noteq> 0 then
        (let itb = int (ceil_div (INODE_COUNT * INODE_SIZE) (BLOCK_SIZE g));
             dbs = INODE_TABLE_START_BLOCK + itb;
             sb' = \<lparr>num_inodes = int INODE_COUNT,
                    num_data_blocks = int (BLOCK_NUM g) - dbs,
                    inode_table_blocks = itb,
                    data_bitmap_blocks = 2,
                    data_blocks_start = dbs\<rparr>;
             s1 = s\<lparr>sb := sb'\<rparr>;
             block = memcpy_at (replicate (BLOCK_SIZE g) 0) 0 (encode_sb sb');
             s2 = snd (disk_write g s1 SUPERBLOCK_BLOCK block);
             s3 = zero_blocks g (replicate (BLOCK_SIZE g) 0) s2 INODE_BITMAP_BLOCK dbs;
             a = alloc_inode g uninit s3
         in if fst a \<noteq> 0 then (- 1, snd a)
            else (let root_inode =
                        update_timestamp now (zero_inode\<lparr>mode := DIRMODE, size := 0\<rparr>)
                          True True True
                  in (0, snd (write_inode g (snd a) (fst a) root_inode))))
      else (case disk_read g s SUPERBLOCK_BLOCK of
              None \<Rightarrow> (0, s)
            | Some block \<Rightarrow> (0, s\<lparr>sb := decode_sb (take 20 block)\<rparr>)))"

section \<open>The block mapper: \<^verbatim>\<open>get_directory_block_addr\<close>\<close>

text \<open>
  \<^verbatim>\<open>uint32_t pointers_per_block = BLOCK_SIZE / sizeof(uint32_t)\<close>; the block address is
  a \<^verbatim>\<open>uint32_t\<close> passed to the \<^verbatim>\<open>int\<close> parameter of \<^verbatim>\<open>disk_read\<close>. A
  \<^verbatim>\<open>BLOCK_SIZE\<close> below 4 would make the source divide by zero.
\<close>

definition get_directory_block_addr :: "geometry \<Rightarrow> fs_state \<Rightarrow> inode \<Rightarrow> u32 \<Rightarrow> u32" where
  "get_directory_block_addr g s dir_inode block_index =
     (if block_index < 12 then direct_block_pointer dir_inode ! unat block_index
      else
        (let bi = block_index - 12;
             pointers_per_block = (word_of_nat (POINTERS_PER_BLOCK g) :: u32);
             indirect_group = bi div pointers_per_block;
             indirect_offset = bi mod pointers_per_block
         in if indirect_group < 2 then
              (let indirect_block_addr = indirect_block_pointer dir_inode ! unat indirect_group
               in if indirect_block_addr = 0 then 0
                  else case disk_read g s (sint indirect_block_addr) of
                         None \<Rightarrow> 0
                       | Some pointers \<Rightarrow> rd32 pointers (4 * unat indirect_offset))
            else 0))"

section \<open>Directories: \<^verbatim>\<open>find_entry_in_directory\<close>\<close>

text \<open>
  Entry \<open>j\<close> of a directory block starts at byte \<open>j * 32\<close>. \<^verbatim>\<open>strcmp\<close> of its name
  with a zero-terminated \<open>name\<close> is 0 exactly when the bytes from there on are those of
  \<open>name\<close> followed by a zero byte; the name handed on as a C string is the bytes up to
  the first zero byte. Neither stops at the 26 bytes of the name field, and a block
  without a zero byte from there on is read to its end here.
\<close>

definition entry_inode_num :: "block \<Rightarrow> nat \<Rightarrow> u32" where
  "entry_inode_num blk j = rd32 blk (j * DIRENT_SIZE + DIRENT_INO_OFFSET)"

definition entry_name_is :: "block \<Rightarrow> nat \<Rightarrow> byte list \<Rightarrow> bool" where
  "entry_name_is blk j name =
     (take (length name + 1) (drop (j * DIRENT_SIZE) blk) = name @ [0])"

definition entry_name :: "block \<Rightarrow> nat \<Rightarrow> byte list" where
  "entry_name blk j = takeWhile (\<lambda>b. b \<noteq> 0) (drop (j * DIRENT_SIZE) blk)"

text \<open>\<^verbatim>\<open>ceil_div(dir_inode->size, BLOCK_SIZE)\<close> on \<^verbatim>\<open>uint32_t\<close>: the sum wraps at 32 bits.\<close>

definition num_blocks_to_check :: "geometry \<Rightarrow> inode \<Rightarrow> nat" where
  "num_blocks_to_check g dir_inode =
     unat ((size dir_inode + word_of_nat (BLOCK_SIZE g) - 1) div word_of_nat (BLOCK_SIZE g))"

text \<open>The inner loop over the \<^verbatim>\<open>ENTRIES_PER_BLOCK\<close> entries of one block, from \<open>j\<close> on.\<close>

function find_in_block :: "block \<Rightarrow> byte list \<Rightarrow> nat \<Rightarrow> nat \<Rightarrow> u32 option" where
  "find_in_block blk name n j =
     (if j < n then
        (if entry_inode_num blk j \<noteq> 0 \<and> entry_name_is blk j name
         then Some (entry_inode_num blk j)
         else find_in_block blk name n (Suc j))
      else None)"
  by pat_completeness auto
termination
  by (relation "measure (\<lambda>(blk, name, n, j). n - j)") auto

declare find_in_block.simps [simp del]

text \<open>The outer loop over the logical blocks of the directory, from \<open>i\<close> on.\<close>

function find_in_blocks ::
  "geometry \<Rightarrow> fs_state \<Rightarrow> inode \<Rightarrow> byte list \<Rightarrow> nat \<Rightarrow> nat \<Rightarrow> u32 option" where
  "find_in_blocks g s dir_inode name n i =
     (if i < n then
        (let block_addr = get_directory_block_addr g s dir_inode (word_of_nat i)
         in if block_addr = 0 then find_in_blocks g s dir_inode name n (Suc i)
            else case disk_read g s (sint block_addr) of
                   None \<Rightarrow> find_in_blocks g s dir_inode name n (Suc i)
                 | Some dir_block \<Rightarrow>
                     (case find_in_block dir_block name (ENTRIES_PER_BLOCK g) 0 of
                        Some ino \<Rightarrow> Some ino
                      | None \<Rightarrow> find_in_blocks g s dir_inode name n (Suc i)))
      else None)"
  by pat_completeness auto
termination
  by (relation "measure (\<lambda>(g, s, dir_inode, name, n, i). n - i)") auto

declare find_in_blocks.simps [simp del]

text \<open>\<open>None\<close> is the return value \<open>-1\<close>.\<close>

definition find_entry_in_directory ::
  "geometry \<Rightarrow> fs_state \<Rightarrow> inode \<Rightarrow> byte list \<Rightarrow> u32 option" where
  "find_entry_in_directory g s dir_inode name =
     (if \<not> S_ISDIR (mode dir_inode) then None
      else find_in_blocks g s dir_inode name (num_blocks_to_check g dir_inode) 0)"

section \<open>Path resolution: \<^verbatim>\<open>find_inode_by_path\<close>\<close>

text \<open>
  A path is a C string, a list of nonzero bytes. \<^verbatim>\<open>strtok_r\<close> with the delimiter
  \<^verbatim>\<open>"/"\<close> yields the maximal runs of bytes other than \<open>0x2F\<close>, empty runs dropped;
  \<open>cur\<close> is the run being read.
\<close>

fun strtok_all :: "byte list \<Rightarrow> byte list \<Rightarrow> byte list list" where
  "strtok_all cur [] = (if cur = [] then [] else [cur])"
| "strtok_all cur (c # cs) =
     (if c = 0x2F then (if cur = [] then strtok_all [] cs else cur # strtok_all [] cs)
      else strtok_all (cur @ [c]) cs)"

text \<open>The \<^verbatim>\<open>while (token != NULL)\<close> loop; \<open>None\<close> is \<^verbatim>\<open>found = false\<close>.\<close>

fun walk_path :: "geometry \<Rightarrow> fs_state \<Rightarrow> u32 \<Rightarrow> byte list list \<Rightarrow> u32 option" where
  "walk_path g s current_ino [] = Some current_ino"
| "walk_path g s current_ino (token # tokens) =
     (case read_inode g s (sint current_ino) of
        None \<Rightarrow> None
      | Some current_inode \<Rightarrow>
          (case find_entry_in_directory g s current_inode token of
             None \<Rightarrow> None
           | Some next_ino \<Rightarrow> walk_path g s next_ino tokens))"

text \<open>
  The result is \<open>Inl status\<close> for a nonzero return value and \<open>Inr inode_index\<close> for the
  return value 0. The path is not \<^verbatim>\<open>NULL\<close>.
\<close>

definition find_inode_by_path :: "geometry \<Rightarrow> fs_state \<Rightarrow> byte list \<Rightarrow> int + u32" where
  "find_inode_by_path g s path =
     (if path = [] \<or> hd path \<noteq> 0x2F then Inl (- 1)
      else if path = [0x2F] then Inr 0
      else case walk_path g s 0 (strtok_all [] (tl path)) of
             None \<Rightarrow> Inl (- 1)
           | Some ino \<Rightarrow> Inr ino)"

section \<open>\<^verbatim>\<open>fs_getattr\<close>\<close>

record stat =
  st_mode :: u32
  st_nlink :: nat
  st_uid :: nat
  st_gid :: nat
  st_size :: nat
  st_atim :: u32
  st_mtim :: u32
  st_ctim :: u32
  st_blksize :: nat
  st_blocks :: nat

text \<open>
  The result is \<open>Inl\<close> of the negative return value, or \<open>Inr\<close> of the structure written
  to \<^verbatim>\<open>*attr\<close> with the return value 0, together with the state, which \<open>fs_getattr\<close> has
  no statement to change. \<^verbatim>\<open>(target.size + 511) / 512\<close> is \<^verbatim>\<open>uint32_t\<close> arithmetic.
\<close>

definition fs_getattr ::
  "geometry \<Rightarrow> nat \<Rightarrow> nat \<Rightarrow> fs_state \<Rightarrow> byte list \<Rightarrow> (int + stat) \<times> fs_state" where
  "fs_getattr g uid gid s path =
     (case find_inode_by_path g s path of
        Inl _ \<Rightarrow> (Inl (- ENOENT), s)
      | Inr inode_index \<Rightarrow>
          (case read_inode g s (sint inode_index) of
             None \<Rightarrow> (Inl (- ENOENT), s)
           | Some target \<Rightarrow>
               (Inr \<lparr>st_mode = mode target, st_nlink = 1, st_uid = uid, st_gid = gid,
                     st_size = unat (size target),
                     st_atim = atime target, st_mtim = mtime target, st_ctim = ctime target,
                     st_blksize = BLOCK_SIZE g,
                     st_blocks = unat ((size target + 511) div 512)\<rparr>, s)))"

section \<open>\<^verbatim>\<open>fs_readdir\<close>\<close>

text \<open>
  \<^verbatim>\<open>filler(buffer, name, NULL, 0)\<close> is a function of the caller's: it takes the buffer
  and a name and returns the buffer and an \<^verbatim>\<open>int\<close>, nonzero when the buffer is full.
  The loops return \<open>(True, buffer)\<close> when the filler reported a full buffer (the
  \<^verbatim>\<open>return 0\<close> inside the loop) and \<open>(False, buffer)\<close> when they ran to their end.
\<close>

type_synonym 'b filler = "'b \<Rightarrow> byte list \<Rightarrow> 'b \<times> int"

function readdir_block :: "'b filler \<Rightarrow> block \<Rightarrow> nat \<Rightarrow> 'b \<Rightarrow> nat \<Rightarrow> bool \<times> 'b" where
  "readdir_block filler entries n buffer j =
     (if j < n then
        (if entry_inode_num entries j \<noteq> 0 then
           (case filler buffer (entry_name entries j) of
              (buffer', r) \<Rightarrow>
                if r \<noteq> 0 then (True, buffer')
                else readdir_block filler entries n buffer' (Suc j))
         else readdir_block filler entries n buffer (Suc j))
      else (False, buffer))"
  by pat_completeness auto
termination
  by (relation "measure (\<lambda>(filler, entries, n, buffer, j). n - j)") auto

declare readdir_block.simps [simp del]

function readdir_blocks ::
  "geometry \<Rightarrow> fs_state \<Rightarrow> inode \<Rightarrow> 'b filler \<Rightarrow> nat \<Rightarrow> 'b \<Rightarrow> nat \<Rightarrow> bool \<times> 'b" where
  "readdir_blocks g s dir_inode filler n buffer i =
     (if i < n then
        (let block_addr = get_directory_block_addr g s dir_inode (word_of_nat i)
         in if block_addr = 0 then readdir_blocks g s dir_inode filler n buffer (Suc i)
            else case disk_read g s (sint block_addr) of
                   None \<Rightarrow> readdir_blocks g s dir_inode filler n buffer (Suc i)
                 | Some entries \<Rightarrow>
                     (case readdir_block filler entries (ENTRIES_PER_BLOCK g) buffer 0 of
                        (True, buffer') \<Rightarrow> (True, buffer')
                      | (False, buffer') \<Rightarrow>
                          readdir_blocks g s dir_inode filler n buffer' (Suc i)))
      else (False, buffer))"
  by pat_completeness auto
termination
  by (relation "measure (\<lambda>(g, s, dir_inode, filler, n, buffer, i). n - i)") auto

declare readdir_blocks.simps [simp del]

text \<open>The result is the return value, the caller's buffer and the state.\<close>

definition fs_readdir ::
  "geometry \<Rightarrow> int \<Rightarrow> fs_state \<Rightarrow> byte list \<Rightarrow> 'b filler \<Rightarrow> 'b \<Rightarrow> int \<times> 'b \<times> fs_state" where
  "fs_readdir g now s path filler buffer =
     (case find_inode_by_path g s path of
        Inl _ \<Rightarrow> (- ENOENT, buffer, s)
      | Inr inode_num \<Rightarrow>
          (case read_inode g s (sint inode_num) of
             None \<Rightarrow> (- ENOENT, buffer, s)
           | Some dir_inode \<Rightarrow>
               if \<not> S_ISDIR (mode dir_inode) then (- ENOENT, buffer, s)
               else
                 (let b1 = fst (filler buffer [0x2E]);
                      b2 = fst (filler b1 [0x2E, 0x2E])
                  in case readdir_blocks g s dir_inode filler
                            (num_blocks_to_check g dir_inode) b2 0 of
                       (True, b3) \<Rightarrow> (0, b3, s)
                     | (False, b3) \<Rightarrow>
                         (0, b3,
                          snd (write_inode g s (sint inode_num)
                                 (update_timestamp now dir_inode True False False))))))"

section \<open>What the specification says of the layout\<close>

text \<open>
  The specification's words for the place of inode \<open>n\<close>: block
  \<open>4 + n / (BLOCK_SIZE / sizeof(inode))\<close>, slot \<open>n % (BLOCK_SIZE / sizeof(inode))\<close>,
  that is, the bytes from \<open>slot * sizeof(inode)\<close> on. They are compared below with
  what \<open>read_inode\<close> and \<open>write_inode\<close> compute.
\<close>

definition inode_slot_block :: "geometry \<Rightarrow> int \<Rightarrow> nat" where
  "inode_slot_block g n = 4 + nat n div INODES_PER_BLOCK g"

definition inode_slot_offset :: "geometry \<Rightarrow> int \<Rightarrow> nat" where
  "inode_slot_offset g n = (nat n mod INODES_PER_BLOCK g) * INODE_SIZE"

text \<open>
  The specification's words for the block mapper: \<open>k = logical_index - 12\<close>,
  \<open>g = k / (BLOCK_SIZE / 4)\<close>, \<open>o = k % (BLOCK_SIZE / 4)\<close>.
\<close>

definition indirect_group_of :: "geometry \<Rightarrow> u32 \<Rightarrow> nat" where
  "indirect_group_of g logical_index = (unat logical_index - 12) div (BLOCK_SIZE g div 4)"

definition indirect_slot_of :: "geometry \<Rightarrow> u32 \<Rightarrow> nat" where
  "indirect_slot_of g logical_index = (unat logical_index - 12) mod (BLOCK_SIZE g div 4)"


section \<open>What the code writes and hands out\<close>

text \<open>
  The root directory a format writes (all fields zero but the mode and the three
  timestamps), and the superblock it computes.
\<close>

definition root_inode_at :: "int \<Rightarrow> inode" where
  "root_inode_at now =
     \<lparr>size = 0, atime = word_of_int now, mtime = word_of_int now, ctime = word_of_int now,
      mode = DIRMODE,
      direct_block_pointer = replicate DIRECT_POINTERS 0,
      indirect_block_pointer = replicate INDIRECT_POINTERS 0\<rparr>"

definition format_sb :: "geometry \<Rightarrow> superblock" where
  "format_sb g =
     \<lparr>num_inodes = int INODE_COUNT,
      num_data_blocks =
        int (BLOCK_NUM g) - (4 + int (ceil_div (INODE_COUNT * INODE_SIZE) (BLOCK_SIZE g))),
      inode_table_blocks = int (ceil_div (INODE_COUNT * INODE_SIZE) (BLOCK_SIZE g)),
      data_bitmap_blocks = 2,
      data_blocks_start = 4 + int (ceil_div (INODE_COUNT * INODE_SIZE) (BLOCK_SIZE g))\<rparr>"






text \<open>The values of the five fields fit the \<^verbatim>\<open>int\<close> they are stored in.\<close>

definition sb_fits_int :: "superblock \<Rightarrow> bool" where
  "sb_fits_int b =
     list_all (\<lambda>v. - (2 ^ 31) \<le> v \<and> v < 2 ^ 31)
       [num_inodes b, num_data_blocks b, inode_table_blocks b,
        data_bitmap_blocks b, data_blocks_start b]"

section \<open>A concrete device\<close>

text \<open>
  The geometry of the device fs.c is built for: blocks of 4096 bytes, so that the
  \<open>INODE_COUNT\<close> bits of the inode bitmap fill one block, and 65536 blocks. The
  superblock is the one a format computes for it.
\<close>

definition lab_geometry :: geometry where
  "lab_geometry = \<lparr>BLOCK_SIZE = 4096, BLOCK_NUM = 65536\<rparr>"

definition lab_sb :: superblock where
  "lab_sb = \<lparr>num_inodes = 32768, num_data_blocks = 64924, inode_table_blocks = 608,
             data_bitmap_blocks = 2, data_blocks_start = 612\<rparr>"

definition blank_state :: fs_state where
  "blank_state = \<lparr>sb = lab_sb, disk = (\<lambda>n. replicate 4096 0)\<rparr>"

definition full_state :: fs_state where
  "full_state = \<lparr>sb = lab_sb, disk = (\<lambda>n. replicate 4096 255)\<rparr>"

text \<open>Two inodes to run the block mapper on.\<close>

definition mapped_inode :: inode where
  "mapped_inode = zero_inode\<lparr>direct_block_pointer := 700 # replicate 11 0,
                              indirect_block_pointer := [701, 0]\<rparr>"

definition stray_inode :: inode where
  "stray_inode = zero_inode\<lparr>indirect_block_pointer := [70000, 0]\<rparr>"

text \<open>
  A small file system on the concrete device: the root directory, of \<open>root_size\<close>
  bytes, has its one block at 612, whose first bytes are \<open>entries\<close>; inode 1 is a
  regular file of thirteen blocks, the last of them reached through the index block 625.
\<close>

definition dir_entry :: "byte list \<Rightarrow> u32 \<Rightarrow> byte list" where
  "dir_entry name ino = name @ replicate (DIRENT_INO_OFFSET - length name) 0 @ le32 ino"

definition sample_root :: "u32 \<Rightarrow> inode" where
  "sample_root root_size =
     \<lparr>size = root_size, atime = 0, mtime = 0, ctime = 0, mode = DIRMODE,
      direct_block_pointer = 612 # replicate 11 0, indirect_block_pointer = [0, 0]\<rparr>"

definition sample_file :: inode where
  "sample_file =
     \<lparr>size = 53248, atime = 0, mtime = 0, ctime = 0, mode = REGMODE,
      direct_block_pointer = [613, 614, 615, 616, 617, 618, 619, 620, 621, 622, 623, 624],
      indirect_block_pointer = [625, 0]\<rparr>"

definition sample_state :: "byte list \<Rightarrow> u32 \<Rightarrow> fs_state" where
  "sample_state entries root_size =
     \<lparr>sb = lab_sb,
      disk = (\<lambda>n. replicate 4096 0)
        (1 := 3 # replicate 4095 0,
         4 := encode_inode (sample_root root_size) @ encode_inode sample_file
              @ replicate (4096 - 2 * INODE_SIZE) 0,
         612 := entries @ replicate (4096 - length entries) 0,
         625 := le32 626 @ replicate 4092 0)\<rparr>"

definition long_name :: "byte list" where
  "long_name = replicate 25 0x61"

definition big_name :: "byte list" where
  "big_name = [0x62, 0x69, 0x67]"







section \<open>Facts about the byte layout\<close>

lemma length_le32 [simp]: "length (le32 w) = 4"
  by (simp add: le32_def)

lemma rd32_le32_0: "rd32 (le32 w) 0 = w"
  unfolding rd32_def le32_def
proof (rule bit_word_eqI)
  fix n assume "n < LENGTH(32)"
  then show "bit (ucast ([ucast w, ucast (drop_bit 8 w), ucast (drop_bit 16 w),
                          ucast (drop_bit 24 w) :: byte] ! 0)
                  OR push_bit 8 (ucast ([ucast w, ucast (drop_bit 8 w), ucast (drop_bit 16 w),
                          ucast (drop_bit 24 w) :: byte] ! (0 + 1)))
                  OR push_bit 16 (ucast ([ucast w, ucast (drop_bit 8 w), ucast (drop_bit 16 w),
                          ucast (drop_bit 24 w) :: byte] ! (0 + 2)))
                  OR push_bit 24 (ucast ([ucast w, ucast (drop_bit 8 w), ucast (drop_bit 16 w),
                          ucast (drop_bit 24 w) :: byte] ! (0 + 3))) :: u32) n = bit w n"
    by (cases "n < 8"; cases "n < 16"; cases "n < 24") (auto simp: bit_simps)
qed

lemma memcpy_at_same:
  "off + length src \<le> length dst \<Longrightarrow> take (length src) (drop off (memcpy_at dst off src)) = src"
  by (simp add: memcpy_at_def)

lemma length_memcpy_at [simp]:
  "off + length src \<le> length dst \<Longrightarrow> length (memcpy_at dst off src) = length dst"
  by (simp add: memcpy_at_def)

lemma memcpy_at_other:
  assumes "off + length src \<le> length dst" "p + k \<le> off \<or> off + length src \<le> p"
  shows "take k (drop p (memcpy_at dst off src)) = take k (drop p dst)"
proof (rule nth_equalityI)
  show "length (take k (drop p (memcpy_at dst off src))) = length (take k (drop p dst))"
    using assms by simp
next
  fix i assume "i < length (take k (drop p (memcpy_at dst off src)))"
  then have i: "i < k" "p + i < length dst" using assms by auto
  have "memcpy_at dst off src ! (p + i) = dst ! (p + i)"
    using assms i by (auto simp: memcpy_at_def nth_append)
  then show "take k (drop p (memcpy_at dst off src)) ! i = take k (drop p dst) ! i"
    using i assms by simp
qed

lemma rd32_append_le32_0: "rd32 (le32 w @ rest) 0 = w"
  using rd32_le32_0 [of w] by (simp add: rd32_def nth_append)

lemma rd32_append_le32_skip: "rd32 (le32 w @ rest) (4 + j) = rd32 rest j"
  by (simp add: rd32_def nth_append add.commute)

lemma rd32_concat_le32:
  "k < length ws \<Longrightarrow> rd32 (concat (map le32 ws) @ rest) (4 * k) = ws ! k"
proof (induction ws arbitrary: k)
  case Nil
  then show ?case by simp
next
  case (Cons w ws)
  show ?case
  proof (cases k)
    case 0
    then show ?thesis by (simp add: rd32_append_le32_0)
  next
    case (Suc m)
    then have "4 * k = 4 + 4 * m" by simp
    then show ?thesis
      using Cons Suc by (simp add: rd32_append_le32_skip)
  qed
qed

lemma length_encode_inode: "inode_ok i \<Longrightarrow> length (encode_inode i) = INODE_SIZE"
  by (simp add: encode_inode_def inode_ok_def INODE_SIZE_def DIRECT_POINTERS_def
      INDIRECT_POINTERS_def length_concat comp_def sum_list_triv)

lemma decode_encode_inode:
  assumes "inode_ok i"
  shows "decode_inode (encode_inode i) = i"
proof -
  let ?ws = "[size i, atime i, mtime i, ctime i, mode i]
             @ direct_block_pointer i @ indirect_block_pointer i"
  have len: "length ?ws = 19"
    using assms by (simp add: inode_ok_def DIRECT_POINTERS_def INDIRECT_POINTERS_def)
  have rd: "rd32 (encode_inode i) (4 * k) = ?ws ! k" if "k < 19" for k
    using rd32_concat_le32 [of k ?ws "[]"] that len by (simp add: encode_inode_def)
  have f0: "rd32 (encode_inode i) 0 = size i" using rd [of 0] by simp
  have f1: "rd32 (encode_inode i) 4 = atime i" using rd [of 1] by simp
  have f2: "rd32 (encode_inode i) 8 = mtime i" using rd [of 2] by simp
  have f3: "rd32 (encode_inode i) 12 = ctime i" using rd [of 3] by simp
  have f4: "rd32 (encode_inode i) 16 = mode i" using rd [of 4] by simp
  have d: "map (\<lambda>k. rd32 (encode_inode i) (20 + 4 * k)) [0..<DIRECT_POINTERS]
           = direct_block_pointer i"
  proof (rule nth_equalityI)
    show "length (map (\<lambda>k. rd32 (encode_inode i) (20 + 4 * k)) [0..<DIRECT_POINTERS])
          = length (direct_block_pointer i)"
      using assms by (simp add: inode_ok_def)
  next
    fix k assume "k < length (map (\<lambda>k. rd32 (encode_inode i) (20 + 4 * k)) [0..<DIRECT_POINTERS])"
    then have k: "k < 12" by (simp add: DIRECT_POINTERS_def)
    have "20 + 4 * k = 4 * (5 + k)" by simp
    then have "rd32 (encode_inode i) (20 + 4 * k) = ?ws ! (5 + k)"
      using rd [of "5 + k"] k by simp
    also have "\<dots> = direct_block_pointer i ! k"
      using k assms by (simp add: nth_append inode_ok_def DIRECT_POINTERS_def)
    finally show "map (\<lambda>k. rd32 (encode_inode i) (20 + 4 * k)) [0..<DIRECT_POINTERS] ! k
                  = direct_block_pointer i ! k"
      using k by (simp add: DIRECT_POINTERS_def)
  qed
  have e: "map (\<lambda>k. rd32 (encode_inode i) (68 + 4 * k)) [0..<INDIRECT_POINTERS]
           = indirect_block_pointer i"
  proof (rule nth_equalityI)
    show "length (map (\<lambda>k. rd32 (encode_inode i) (68 + 4 * k)) [0..<INDIRECT_POINTERS])
          = length (indirect_block_pointer i)"
      using assms by (simp add: inode_ok_def)
  next
    fix k assume "k < length (map (\<lambda>k. rd32 (encode_inode i) (68 + 4 * k)) [0..<INDIRECT_POINTERS])"
    then have k: "k < 2" by (simp add: INDIRECT_POINTERS_def)
    have "68 + 4 * k = 4 * (17 + k)" by simp
    then have "rd32 (encode_inode i) (68 + 4 * k) = ?ws ! (17 + k)"
      using rd [of "17 + k"] k by simp
    also have "\<dots> = indirect_block_pointer i ! k"
      using k assms by (simp add: nth_append inode_ok_def DIRECT_POINTERS_def INDIRECT_POINTERS_def)
    finally show "map (\<lambda>k. rd32 (encode_inode i) (68 + 4 * k)) [0..<INDIRECT_POINTERS] ! k
                  = indirect_block_pointer i ! k"
      using k by (simp add: INDIRECT_POINTERS_def)
  qed
  show ?thesis
    by (simp add: decode_inode_def f0 f1 f2 f3 f4 d e)
qed

lemma size_t_of_int_nonneg: "0 \<le> n \<Longrightarrow> n < 2 ^ 64 \<Longrightarrow> size_t_of_int n = nat n"
  by (simp add: size_t_of_int_def)

lemma int_of_size_t_small: "x < 2 ^ 31 \<Longrightarrow> int_of_size_t x = int x"
  by (simp add: int_of_size_t_def Let_def)

lemma inode_block_num_in_range:
  assumes "0 \<le> n" "n < int INODE_COUNT"
  shows "inode_block_num g n = 4 + int (nat n div INODES_PER_BLOCK g)"
    and "inode_offset_in_block g n = nat n mod INODES_PER_BLOCK g"
proof -
  have n: "nat n < 32768" using assms by (simp add: INODE_COUNT_def)
  have s: "size_t_of_int n = nat n"
    using assms by (intro size_t_of_int_nonneg) (simp_all add: INODE_COUNT_def)
  have d: "nat n div INODES_PER_BLOCK g \<le> nat n" by (rule div_le_dividend)
  have b: "4 + nat n div INODES_PER_BLOCK g < 32772"
    using n d by linarith
  have "(32772::nat) < 2 ^ 64" by simp
  with b have "4 + nat n div INODES_PER_BLOCK g < 2 ^ 64"
    by (rule less_trans)
  then have "(4 + nat n div INODES_PER_BLOCK g) mod 2 ^ 64 = 4 + nat n div INODES_PER_BLOCK g"
    by (rule mod_less)
  moreover have "int_of_size_t (4 + nat n div INODES_PER_BLOCK g)
                 = int (4 + nat n div INODES_PER_BLOCK g)"
  proof (rule int_of_size_t_small)
    have "(32772::nat) < 2 ^ 31" by simp
    with b show "4 + nat n div INODES_PER_BLOCK g < 2 ^ 31" by (rule less_trans)
  qed
  ultimately show "inode_block_num g n = 4 + int (nat n div INODES_PER_BLOCK g)"
    by (simp add: inode_block_num_def s INODE_TABLE_START_BLOCK_def)
  show "inode_offset_in_block g n = nat n mod INODES_PER_BLOCK g"
    by (simp add: inode_offset_in_block_def s)
qed

lemma inode_block_num_negative:
  assumes "- (2 ^ 31) \<le> n" "n < 0" "BLOCK_SIZE g = 4096"
  shows "inode_block_num g n < 0"
proof -
  have ipb: "INODES_PER_BLOCK g = 53"
    using assms(3) by (simp add: INODES_PER_BLOCK_def INODE_SIZE_def)
  have "(n + 2 ^ 64) mod 2 ^ 64 = n + 2 ^ 64"
    using assms by (intro mod_pos_pos_trivial) auto
  then have m: "n mod 2 ^ 64 = 2 ^ 64 + n"
    by (simp add: add.commute)
  define u where "u = nat (2 ^ 64 + n)"
  have u: "18446744071562067968 \<le> u" "u \<le> 18446744073709551615"
    using assms by (simp_all add: u_def)
  define q where "q = u div 53"
  have q: "348051774935133357 \<le> q" "q \<le> 348051774975651917"
    using u unfolding q_def by linarith+
  define x where "x = (4 + q) mod 2 ^ 64"
  have x: "x = 4 + q" using q by (simp add: x_def)
  have xm: "x mod 2 ^ 32 = x - 81037118 * 2 ^ 32"
  proof -
    have "x = (x - 81037118 * 2 ^ 32) + 81037118 * 2 ^ 32" using x q by simp
    moreover have "x - 81037118 * 2 ^ 32 < 2 ^ 32" using x q by simp
    ultimately show ?thesis
      by (metis mod_less mod_mult_self1 mult.commute)
  qed
  have "2 ^ 31 \<le> x mod 2 ^ 32" using xm x q by simp
  then have neg: "int_of_size_t x < 0"
    by (simp add: int_of_size_t_def Let_def)
  have s: "size_t_of_int n = u"
    by (simp only: size_t_of_int_def m u_def)
  have "inode_block_num g n = int_of_size_t x"
    by (simp only: inode_block_num_def s ipb x_def q_def INODE_TABLE_START_BLOCK_def nat_numeral)
  then show ?thesis using neg by simp
qed

section \<open>Facts about the bitmap\<close>

lemma bitmap_test_set:
  assumes "i div 8 < length bitmap" "j div 8 < length bitmap"
  shows "bitmap_test (bitmap_set bitmap i) j = (j = i \<or> bitmap_test bitmap j)"
proof (cases "j div 8 = i div 8")
  case True
  have "j = i \<longleftrightarrow> j mod 8 = i mod 8"
    using True by (metis div_mult_mod_eq)
  then show ?thesis
    using assms True by (auto simp: bitmap_test_def bitmap_set_def bit_simps)
next
  case False
  then have "j \<noteq> i" by auto
  then show ?thesis
    using assms False by (simp add: bitmap_test_def bitmap_set_def)
qed

lemma length_bitmap_set [simp]: "length (bitmap_set bitmap i) = length bitmap"
  by (simp add: bitmap_set_def)

lemma byte_set_clear:
  "\<not> bit (b::byte) k \<Longrightarrow> (b OR push_bit k 1) AND NOT (push_bit k 1) = b"
  by (rule bit_word_eqI) (auto simp: bit_simps)

lemma bitmap_clear_set:
  assumes "\<not> bitmap_test bitmap i"
  shows "bitmap_clear (bitmap_set bitmap i) i = bitmap"
proof (cases "i div 8 < length bitmap")
  case True
  then show ?thesis
    using assms byte_set_clear [of "bitmap ! (i div 8)" "i mod 8"]
    by (simp add: bitmap_clear_def bitmap_set_def bitmap_test_def)
next
  case False
  then show ?thesis
    by (simp add: bitmap_clear_def bitmap_set_def list_update_beyond)
qed

lemma alloc_scan_Some:
  "alloc_scan bitmap n i = Some k \<Longrightarrow>
     i \<le> k \<and> k < n \<and> \<not> bitmap_test bitmap k \<and> (\<forall>j. i \<le> j \<and> j < k \<longrightarrow> bitmap_test bitmap j)"
proof (induction bitmap n i rule: alloc_scan.induct)
  case (1 bitmap n i)
  show ?case
  proof (cases "i < n \<and> bitmap_test bitmap i")
    case True
    then have "alloc_scan bitmap n (Suc i) = Some k"
      using "1.prems" by (simp add: alloc_scan.simps [of bitmap n i])
    then have ih: "Suc i \<le> k \<and> k < n \<and> \<not> bitmap_test bitmap k
                   \<and> (\<forall>j. Suc i \<le> j \<and> j < k \<longrightarrow> bitmap_test bitmap j)"
      using "1.IH" True by simp
    have "bitmap_test bitmap j" if "i \<le> j" "j < k" for j
      using that ih True by (cases "j = i") auto
    then show ?thesis using ih by auto
  next
    case False
    then show ?thesis
      using "1.prems" by (auto simp: alloc_scan.simps [of bitmap n i] split: if_splits)
  qed
qed

lemma alloc_scan_None:
  "alloc_scan bitmap n i = None \<Longrightarrow> (\<forall>j. i \<le> j \<and> j < n \<longrightarrow> bitmap_test bitmap j)"
proof (induction bitmap n i rule: alloc_scan.induct)
  case (1 bitmap n i)
  show ?case
  proof (cases "i < n")
    case True
    then have t: "bitmap_test bitmap i" and r: "alloc_scan bitmap n (Suc i) = None"
      using "1.prems" by (auto simp: alloc_scan.simps [of bitmap n i] split: if_splits)
    have ih: "\<forall>j. Suc i \<le> j \<and> j < n \<longrightarrow> bitmap_test bitmap j"
      using "1.IH" True t r by simp
    have "bitmap_test bitmap j" if "i \<le> j" "j < n" for j
      using that ih t by (cases "j = i") auto
    then show ?thesis by auto
  next
    case False
    then show ?thesis by auto
  qed
qed

lemma alloc_scan_exists:
  assumes "i \<le> k" "k < n" "\<not> bitmap_test bitmap k"
  shows "\<exists>m. alloc_scan bitmap n i = Some m"
proof (cases "alloc_scan bitmap n i")
  case None
  then show ?thesis using alloc_scan_None [OF None] assms by auto
next
  case (Some m)
  then show ?thesis by simp
qed

section \<open>Claims about the inode bitmap\<close>

lemma alloc_inode_Some:
  assumes "valid_block g INODE_BITMAP_BLOCK"
    and "alloc_scan (disk s 1) (nat (num_inodes (sb s))) 0 = Some i"
  shows "alloc_inode g uninit s = (int i, s\<lparr>disk := (disk s)(1 := bitmap_set (disk s 1) i)\<rparr>)"
  using assms by (simp add: alloc_inode_def disk_read_def disk_write_def INODE_BITMAP_BLOCK_def)

lemma alloc_inode_None:
  assumes "valid_block g INODE_BITMAP_BLOCK"
    and "alloc_scan (disk s 1) (nat (num_inodes (sb s))) 0 = None"
  shows "alloc_inode g uninit s = (- ENOSPC, s)"
  using assms by (simp add: alloc_inode_def disk_read_def INODE_BITMAP_BLOCK_def)

text \<open>
  C8. With the superblock of a formatted file system (\<open>num_inodes = INODE_COUNT\<close>) and
  the inode bitmap in block 1 of the device, covering \<open>INODE_COUNT\<close> bits: if some bit
  below \<open>INODE_COUNT\<close> is clear, \<open>alloc_inode\<close> returns the index \<open>i\<close> of the lowest
  clear bit and leaves on the device the bitmap in which bit \<open>i\<close> is set and every
  other bit is as before, no other block touched; if all \<open>INODE_COUNT\<close> bits are set,
  it returns \<open>-ENOSPC\<close> and the state is unchanged.
\<close>

theorem alloc_inode_lowest_clear_bit:
  assumes "valid_block g INODE_BITMAP_BLOCK"
    and "num_inodes (sb s) = int INODE_COUNT"
    and "length (disk s 1) = BLOCK_SIZE g"
    and "INODE_COUNT \<le> 8 * BLOCK_SIZE g"
  shows "((\<exists>k<INODE_COUNT. \<not> bitmap_test (disk s 1) k) \<longrightarrow>
           (\<exists>i<INODE_COUNT.
              \<not> bitmap_test (disk s 1) i \<and> (\<forall>j<i. bitmap_test (disk s 1) j)
              \<and> fst (alloc_inode g uninit s) = int i
              \<and> sb (snd (alloc_inode g uninit s)) = sb s
              \<and> (\<forall>n. n \<noteq> 1 \<longrightarrow> disk (snd (alloc_inode g uninit s)) n = disk s n)
              \<and> length (disk (snd (alloc_inode g uninit s)) 1) = BLOCK_SIZE g
              \<and> (\<forall>j < 8 * BLOCK_SIZE g.
                    bitmap_test (disk (snd (alloc_inode g uninit s)) 1) j
                    = (j = i \<or> bitmap_test (disk s 1) j))))
       \<and> ((\<forall>k<INODE_COUNT. bitmap_test (disk s 1) k) \<longrightarrow>
           alloc_inode g uninit s = (- ENOSPC, s))"
proof (intro conjI impI)
  assume "\<exists>k<INODE_COUNT. \<not> bitmap_test (disk s 1) k"
  then obtain k where k: "k < INODE_COUNT" "\<not> bitmap_test (disk s 1) k" by blast
  obtain i where i: "alloc_scan (disk s 1) (nat (num_inodes (sb s))) 0 = Some i"
    using alloc_scan_exists [of 0 k "nat (num_inodes (sb s))" "disk s 1"] k assms(2)
    by auto
  note sc = alloc_scan_Some [OF i]
  have lt: "i < INODE_COUNT" using sc assms(2) by simp
  have a: "alloc_inode g uninit s
           = (int i, s\<lparr>disk := (disk s)(1 := bitmap_set (disk s 1) i)\<rparr>)"
    by (rule alloc_inode_Some [OF assms(1) i])
  have inb: "i div 8 < length (disk s 1)"
    using lt assms(3,4) by simp
  have bits: "bitmap_test (bitmap_set (disk s 1) i) j = (j = i \<or> bitmap_test (disk s 1) j)"
    if "j < 8 * BLOCK_SIZE g" for j
  proof -
    have "j div 8 < length (disk s 1)" using that assms(3) by simp
    then show ?thesis by (rule bitmap_test_set [OF inb])
  qed
  show "\<exists>i<INODE_COUNT.
            \<not> bitmap_test (disk s 1) i \<and> (\<forall>j<i. bitmap_test (disk s 1) j)
            \<and> fst (alloc_inode g uninit s) = int i
            \<and> sb (snd (alloc_inode g uninit s)) = sb s
            \<and> (\<forall>n. n \<noteq> 1 \<longrightarrow> disk (snd (alloc_inode g uninit s)) n = disk s n)
            \<and> length (disk (snd (alloc_inode g uninit s)) 1) = BLOCK_SIZE g
            \<and> (\<forall>j < 8 * BLOCK_SIZE g.
                  bitmap_test (disk (snd (alloc_inode g uninit s)) 1) j
                  = (j = i \<or> bitmap_test (disk s 1) j))"
    using lt sc bits assms(3) by (intro exI [of _ i]) (simp add: a)
next
  assume full: "\<forall>k<INODE_COUNT. bitmap_test (disk s 1) k"
  have "alloc_scan (disk s 1) (nat (num_inodes (sb s))) 0 = None"
  proof (cases "alloc_scan (disk s 1) (nat (num_inodes (sb s))) 0")
    case None
    then show ?thesis .
  next
    case (Some i)
    then show ?thesis
      using alloc_scan_Some [OF Some] full assms(2) by auto
  qed
  then show "alloc_inode g uninit s = (- ENOSPC, s)"
    by (rule alloc_inode_None [OF assms(1)])
qed

lemma byte_255_bit: "m < 8 \<Longrightarrow> bit (255::byte) m"
proof -
  assume m: "m < 8"
  have e: "(255::byte) = - 1" by simp
  have "bit (- 1 :: byte) m" using m by (simp add: bit_simps)
  then show "bit (255::byte) m" by (simp only: e)
qed

theorem alloc_inode_lowest_clear_bit_witness:
  "valid_block lab_geometry INODE_BITMAP_BLOCK
   \<and> num_inodes (sb blank_state) = int INODE_COUNT
   \<and> length (disk blank_state 1) = BLOCK_SIZE lab_geometry
   \<and> INODE_COUNT \<le> 8 * BLOCK_SIZE lab_geometry
   \<and> \<not> bitmap_test (disk blank_state 1) 0
   \<and> fst (alloc_inode lab_geometry [] blank_state) = 0
   \<and> bitmap_test (disk full_state 1) 0
   \<and> alloc_inode lab_geometry [] full_state = (- ENOSPC, full_state)"
proof -
  have h1: "valid_block lab_geometry INODE_BITMAP_BLOCK"
    by (simp add: valid_block_def lab_geometry_def INODE_BITMAP_BLOCK_def)
  have h2: "num_inodes (sb blank_state) = int INODE_COUNT"
    by (simp add: blank_state_def lab_sb_def INODE_COUNT_def)
  have h2': "num_inodes (sb full_state) = int INODE_COUNT"
    by (simp add: full_state_def lab_sb_def INODE_COUNT_def)
  have h3: "length (disk blank_state 1) = BLOCK_SIZE lab_geometry"
    by (simp add: blank_state_def lab_geometry_def)
  have h3': "length (disk full_state 1) = BLOCK_SIZE lab_geometry"
    by (simp add: full_state_def lab_geometry_def)
  have h4: "INODE_COUNT \<le> 8 * BLOCK_SIZE lab_geometry"
    by (simp add: INODE_COUNT_def lab_geometry_def)
  have c0: "\<not> bitmap_test (disk blank_state 1) 0"
    by (simp add: bitmap_test_def blank_state_def)
  have ex: "\<exists>k<INODE_COUNT. \<not> bitmap_test (disk blank_state 1) k"
    using c0 by (intro exI [of _ 0]) (simp add: INODE_COUNT_def)
  have full: "\<forall>k<INODE_COUNT. bitmap_test (disk full_state 1) k"
  proof (intro allI impI)
    fix k assume "k < INODE_COUNT"
    then have d: "k div 8 < 4096" by (simp add: INODE_COUNT_def)
    have "bit (255::byte) (k mod 8)" by (rule byte_255_bit) simp
    then show "bitmap_test (disk full_state 1) k"
      using d by (simp add: bitmap_test_def full_state_def)
  qed
  have a: "fst (alloc_inode lab_geometry [] blank_state) = 0"
  proof -
    obtain i where i: "\<forall>j<i. bitmap_test (disk blank_state 1) j"
        "fst (alloc_inode lab_geometry [] blank_state) = int i"
      using alloc_inode_lowest_clear_bit [OF h1 h2 h3 h4, of "[]", THEN conjunct1, THEN mp, OF ex]
      by auto
    have "i = 0" using i(1) c0 by (cases "i = 0") auto
    then show ?thesis using i(2) by simp
  qed
  have b: "alloc_inode lab_geometry [] full_state = (- ENOSPC, full_state)"
    by (rule alloc_inode_lowest_clear_bit [OF h1 h2' h3' h4, of "[]", THEN conjunct2, THEN mp, OF full])
  have f0: "bitmap_test (disk full_state 1) 0"
    using full by (simp add: INODE_COUNT_def)
  show ?thesis using h1 h2 h3 h4 c0 a b f0 by blast
qed

text \<open>
  C10. If the inode bitmap on the device has a clear bit below \<open>num_inodes\<close>, then
  \<open>alloc_inode\<close> followed by \<open>free_inode\<close> of the index it returned leaves the state,
  and so the persisted bitmap, exactly as it was before the allocation.
\<close>

theorem alloc_then_free_inode_restores:
  assumes "\<exists>k < nat (num_inodes (sb s)). \<not> bitmap_test (disk s 1) k"
  shows "free_inode g uninit' (snd (alloc_inode g uninit s)) (fst (alloc_inode g uninit s)) = s"
proof (cases "valid_block g INODE_BITMAP_BLOCK")
  case True
  obtain k where k: "k < nat (num_inodes (sb s))" "\<not> bitmap_test (disk s 1) k"
    using assms by blast
  obtain i where i: "alloc_scan (disk s 1) (nat (num_inodes (sb s))) 0 = Some i"
    using alloc_scan_exists [of 0 k "nat (num_inodes (sb s))" "disk s 1"] k by auto
  have clr: "\<not> bitmap_test (disk s 1) i"
    using alloc_scan_Some [OF i] by simp
  have a: "alloc_inode g uninit s
           = (int i, s\<lparr>disk := (disk s)(1 := bitmap_set (disk s 1) i)\<rparr>)"
    by (rule alloc_inode_Some [OF True i])
  have eq: "bitmap_clear (bitmap_set (disk s (Suc 0)) i) i = disk s (Suc 0)"
    using bitmap_clear_set [OF clr] by simp
  show ?thesis
    using True by (simp add: a free_inode_def disk_read_def disk_write_def
        INODE_BITMAP_BLOCK_def eq)
next
  case False
  then show ?thesis
    by (simp add: free_inode_def alloc_inode_def disk_read_def disk_write_def
        split: option.splits)
qed

theorem alloc_then_free_inode_restores_witness:
  "\<not> bitmap_test (disk blank_state 1) 0
   \<and> free_inode lab_geometry [] (snd (alloc_inode lab_geometry [] blank_state))
        (fst (alloc_inode lab_geometry [] blank_state)) = blank_state"
proof -
  have c0: "\<not> bitmap_test (disk blank_state 1) 0"
    by (simp add: bitmap_test_def blank_state_def)
  have ex: "\<exists>k < nat (num_inodes (sb blank_state)). \<not> bitmap_test (disk blank_state 1) k"
    using c0 by (intro exI [of _ 0]) (simp add: blank_state_def lab_sb_def)
  show ?thesis
    using c0 alloc_then_free_inode_restores [OF ex] by simp
qed

section \<open>Claims about the inode table\<close>

lemma read_inode_out_of_range: "n \<ge> int INODE_COUNT \<Longrightarrow> read_inode g s n = None"
  by (simp add: read_inode_def)

lemma write_inode_out_of_range: "n \<ge> int INODE_COUNT \<Longrightarrow> write_inode g s n ino = (- 1, s)"
  by (simp add: write_inode_def)

lemma read_inode_unreadable:
  "\<not> valid_block g (inode_block_num g n) \<Longrightarrow> read_inode g s n = None"
  by (simp add: read_inode_def disk_read_def)

lemma write_inode_unreadable:
  "\<not> valid_block g (inode_block_num g n) \<Longrightarrow> write_inode g s n ino = (- 1, s)"
  by (simp add: write_inode_def disk_read_def)

lemma negative_block_invalid: "b < 0 \<Longrightarrow> \<not> valid_block g b"
  by (simp add: valid_block_def)

lemma read_inode_in_range:
  assumes "0 \<le> n" "n < int INODE_COUNT" "valid_block g (int (inode_slot_block g n))"
  shows "read_inode g s n
         = Some (decode_inode (take INODE_SIZE
                   (drop (inode_slot_offset g n) (disk s (inode_slot_block g n)))))"
  using assms inode_block_num_in_range [OF assms(1,2), of g]
  by (simp add: read_inode_def disk_read_def inode_slot_block_def inode_slot_offset_def nat_add_distrib)

lemma write_inode_in_range:
  assumes "0 \<le> n" "n < int INODE_COUNT" "valid_block g (int (inode_slot_block g n))"
  shows "write_inode g s n ino
         = (0, s\<lparr>disk := (disk s)(inode_slot_block g n :=
                     memcpy_at (disk s (inode_slot_block g n)) (inode_slot_offset g n)
                       (encode_inode ino))\<rparr>)"
  using assms inode_block_num_in_range [OF assms(1,2), of g]
  by (simp add: write_inode_def disk_read_def disk_write_def inode_slot_block_def
      inode_slot_offset_def nat_add_distrib)

lemma read_write_inode_invalid:
  assumes "0 \<le> n" "n < int INODE_COUNT" "\<not> valid_block g (int (inode_slot_block g n))"
  shows "read_inode g s n = None" "write_inode g s n ino = (- 1, s)"
  using assms inode_block_num_in_range [OF assms(1,2), of g]
  by (simp_all add: read_inode_def write_inode_def disk_read_def inode_slot_block_def)

lemma slot_fits:
  assumes "INODE_SIZE \<le> BLOCK_SIZE g"
  shows "inode_slot_offset g n + INODE_SIZE \<le> BLOCK_SIZE g"
proof -
  have p: "0 < INODES_PER_BLOCK g"
    using assms by (simp add: INODES_PER_BLOCK_def INODE_SIZE_def div_greater_zero_iff)
  then have "nat n mod INODES_PER_BLOCK g < INODES_PER_BLOCK g" by simp
  then have "Suc (nat n mod INODES_PER_BLOCK g) \<le> INODES_PER_BLOCK g" by simp
  then have "Suc (nat n mod INODES_PER_BLOCK g) * INODE_SIZE \<le> INODES_PER_BLOCK g * INODE_SIZE"
    by (rule mult_le_mono1)
  also have "\<dots> \<le> BLOCK_SIZE g"
    by (simp add: INODES_PER_BLOCK_def)
  finally show ?thesis by (simp add: inode_slot_offset_def)
qed

lemma read_after_write_inode:
  assumes "0 \<le> n" "n < int INODE_COUNT" "valid_block g (int (inode_slot_block g n))"
    and "INODE_SIZE \<le> BLOCK_SIZE g" "length (disk s (inode_slot_block g n)) = BLOCK_SIZE g"
    and "inode_ok ino"
  shows "read_inode g (snd (write_inode g s n ino)) n = Some ino"
proof -
  have fit: "inode_slot_offset g n + length (encode_inode ino)
             \<le> length (disk s (inode_slot_block g n))"
    using slot_fits [OF assms(4), of n] assms(5) length_encode_inode [OF assms(6)] by simp
  have "take INODE_SIZE (drop (inode_slot_offset g n)
          (memcpy_at (disk s (inode_slot_block g n)) (inode_slot_offset g n) (encode_inode ino)))
        = encode_inode ino"
    using memcpy_at_same [OF fit] length_encode_inode [OF assms(6)] by simp
  then show ?thesis
    using assms(6)
    by (simp add: write_inode_in_range [OF assms(1-3)] read_inode_in_range [OF assms(1-3)]
        decode_encode_inode)
qed

lemma slots_apart:
  assumes "a \<noteq> (b::nat)"
  shows "a * k + k \<le> b * k \<or> b * k + k \<le> a * k"
proof (cases "a < b")
  case True
  then have "Suc a \<le> b" by simp
  then have "Suc a * k \<le> b * k" by (rule mult_le_mono1)
  then show ?thesis by simp
next
  case False
  then have "Suc b \<le> a" using assms by simp
  then have "Suc b * k \<le> a * k" by (rule mult_le_mono1)
  then show ?thesis by simp
qed

lemma write_inode_frame:
  assumes "0 \<le> n" "n < int INODE_COUNT" "valid_block g (int (inode_slot_block g n))"
    and "INODE_SIZE \<le> BLOCK_SIZE g" "length (disk s (inode_slot_block g n)) = BLOCK_SIZE g"
    and "inode_ok ino"
    and "0 \<le> m" "m < int INODE_COUNT" "m \<noteq> n"
  shows "read_inode g (snd (write_inode g s n ino)) m = read_inode g s m"
proof (cases "valid_block g (int (inode_slot_block g m))")
  case False
  then show ?thesis
    using read_write_inode_invalid(1) [OF assms(7,8) False] by simp
next
  case True
  note w = write_inode_in_range [OF assms(1-3)]
  show ?thesis
  proof (cases "inode_slot_block g m = inode_slot_block g n")
    case False
    then show ?thesis
      by (simp add: w read_inode_in_range [OF assms(7,8) True])
  next
    case same: True
    have p: "0 < INODES_PER_BLOCK g"
      using assms(4) by (simp add: INODES_PER_BLOCK_def INODE_SIZE_def div_greater_zero_iff)
    have "nat m \<noteq> nat n" using assms(1,7,9) by simp
    moreover have "nat m div INODES_PER_BLOCK g = nat n div INODES_PER_BLOCK g"
      using same by (simp add: inode_slot_block_def)
    ultimately have ne: "nat m mod INODES_PER_BLOCK g \<noteq> nat n mod INODES_PER_BLOCK g"
      by (metis div_mult_mod_eq)
    have apart: "inode_slot_offset g m + INODE_SIZE \<le> inode_slot_offset g n
                 \<or> inode_slot_offset g n + length (encode_inode ino) \<le> inode_slot_offset g m"
      using slots_apart [OF ne, of INODE_SIZE] length_encode_inode [OF assms(6)]
      by (simp add: inode_slot_offset_def)
    have fit: "inode_slot_offset g n + length (encode_inode ino)
               \<le> length (disk s (inode_slot_block g n))"
      using slot_fits [OF assms(4), of n] assms(5) length_encode_inode [OF assms(6)] by simp
    have "take INODE_SIZE (drop (inode_slot_offset g m)
            (memcpy_at (disk s (inode_slot_block g n)) (inode_slot_offset g n) (encode_inode ino)))
          = take INODE_SIZE (drop (inode_slot_offset g m) (disk s (inode_slot_block g n)))"
      by (rule memcpy_at_other [OF fit apart])
    then show ?thesis
      using same by (simp add: w read_inode_in_range [OF assms(7,8) True])
  qed
qed

text \<open>
  The inode table as \<open>read_inode\<close> and \<open>write_inode\<close> see it. An inode number at
  or above \<open>INODE_COUNT\<close> gives the error \<open>-1\<close>. For \<open>0 \<le> n < INODE_COUNT\<close> they
  work on the block \<open>4 + n div INODES_PER_BLOCK\<close> at the slot
  \<open>n mod INODES_PER_BLOCK\<close>: both fail if the device has no such block; otherwise
  \<open>read_inode\<close> decodes the \<open>INODE_SIZE\<close> bytes of the slot, and \<open>write_inode\<close>
  writes the block back with those bytes replaced and all others kept, so that reading
  \<open>n\<close> again gives the inode written and every other inode reads as before. For a
  negative \<open>n\<close> and blocks of 4096 bytes the block number computed is negative, and the
  device refuses it.
\<close>

lemma read_write_inode_location:
  assumes "inode_ok ino"
  shows "(n \<ge> int INODE_COUNT \<longrightarrow>
            read_inode g s n = None \<and> write_inode g s n ino = (- 1, s))
       \<and> (- (2 ^ 31) \<le> n \<and> n < 0 \<and> BLOCK_SIZE g = 4096 \<longrightarrow>
            read_inode g s n = None \<and> write_inode g s n ino = (- 1, s))
       \<and> (0 \<le> n \<and> n < int INODE_COUNT \<and> \<not> valid_block g (int (inode_slot_block g n)) \<longrightarrow>
            read_inode g s n = None \<and> write_inode g s n ino = (- 1, s))
       \<and> (0 \<le> n \<and> n < int INODE_COUNT \<and> valid_block g (int (inode_slot_block g n)) \<longrightarrow>
            read_inode g s n
              = Some (decode_inode (take INODE_SIZE
                        (drop (inode_slot_offset g n) (disk s (inode_slot_block g n)))))
            \<and> write_inode g s n ino
              = (0, s\<lparr>disk := (disk s)(inode_slot_block g n :=
                          take (inode_slot_offset g n) (disk s (inode_slot_block g n))
                          @ encode_inode ino
                          @ drop (inode_slot_offset g n + INODE_SIZE)
                              (disk s (inode_slot_block g n)))\<rparr>))
       \<and> (0 \<le> n \<and> n < int INODE_COUNT \<and> valid_block g (int (inode_slot_block g n))
            \<and> INODE_SIZE \<le> BLOCK_SIZE g
            \<and> length (disk s (inode_slot_block g n)) = BLOCK_SIZE g \<longrightarrow>
            read_inode g (snd (write_inode g s n ino)) n = Some ino
            \<and> (\<forall>m. 0 \<le> m \<and> m < int INODE_COUNT \<and> m \<noteq> n \<longrightarrow>
                   read_inode g (snd (write_inode g s n ino)) m = read_inode g s m))"
proof (intro conjI impI allI)
  assume "n \<ge> int INODE_COUNT"
  then show "read_inode g s n = None" "write_inode g s n ino = (- 1, s)"
    by (simp_all add: read_inode_out_of_range write_inode_out_of_range)
next
  assume a: "- (2 ^ 31) \<le> n \<and> n < 0 \<and> BLOCK_SIZE g = 4096"
  then have "inode_block_num g n < 0"
    using inode_block_num_negative [of n g] by simp
  then have "\<not> valid_block g (inode_block_num g n)"
    by (rule negative_block_invalid)
  then show "read_inode g s n = None" "write_inode g s n ino = (- 1, s)"
    by (simp_all add: read_inode_unreadable write_inode_unreadable)
next
  assume a: "0 \<le> n \<and> n < int INODE_COUNT \<and> \<not> valid_block g (int (inode_slot_block g n))"
  then show "read_inode g s n = None" "write_inode g s n ino = (- 1, s)"
    using read_write_inode_invalid(1) [of n g s] read_write_inode_invalid(2) [of n g s ino]
    by simp_all
next
  assume a: "0 \<le> n \<and> n < int INODE_COUNT \<and> valid_block g (int (inode_slot_block g n))"
  then show "read_inode g s n
              = Some (decode_inode (take INODE_SIZE
                        (drop (inode_slot_offset g n) (disk s (inode_slot_block g n)))))"
    using read_inode_in_range [of n g s] by simp
  show "write_inode g s n ino
              = (0, s\<lparr>disk := (disk s)(inode_slot_block g n :=
                          take (inode_slot_offset g n) (disk s (inode_slot_block g n))
                          @ encode_inode ino
                          @ drop (inode_slot_offset g n + INODE_SIZE)
                              (disk s (inode_slot_block g n)))\<rparr>)"
    using a write_inode_in_range [of n g s ino] length_encode_inode [OF assms]
    by (simp add: memcpy_at_def)
next
  assume a: "0 \<le> n \<and> n < int INODE_COUNT \<and> valid_block g (int (inode_slot_block g n))
            \<and> INODE_SIZE \<le> BLOCK_SIZE g
            \<and> length (disk s (inode_slot_block g n)) = BLOCK_SIZE g"
  then show "read_inode g (snd (write_inode g s n ino)) n = Some ino"
    using read_after_write_inode [of n g s ino] assms by simp
next
  fix m
  assume a: "0 \<le> n \<and> n < int INODE_COUNT \<and> valid_block g (int (inode_slot_block g n))
            \<and> INODE_SIZE \<le> BLOCK_SIZE g
            \<and> length (disk s (inode_slot_block g n)) = BLOCK_SIZE g"
    and m: "0 \<le> m \<and> m < int INODE_COUNT \<and> m \<noteq> n"
  then show "read_inode g (snd (write_inode g s n ino)) m = read_inode g s m"
    using write_inode_frame [of n g s ino m] assms by simp
qed

lemma zero_inode_ok: "inode_ok zero_inode"
  by (simp add: inode_ok_def zero_inode_def)

lemma read_write_inode_examples:
  "inode_ok zero_inode
   \<and> read_inode lab_geometry blank_state 32768 = None
   \<and> write_inode lab_geometry blank_state 32768 zero_inode = (- 1, blank_state)
   \<and> read_inode lab_geometry blank_state (- 1) = None
   \<and> write_inode lab_geometry blank_state (- 1) zero_inode = (- 1, blank_state)
   \<and> read_inode \<lparr>BLOCK_SIZE = 4096, BLOCK_NUM = 4\<rparr> blank_state 0 = None
   \<and> valid_block lab_geometry (int (inode_slot_block lab_geometry 54))
   \<and> inode_slot_block lab_geometry 54 = 5
   \<and> inode_slot_offset lab_geometry 54 = 76
   \<and> read_inode lab_geometry full_state 54
        = Some (decode_inode (take INODE_SIZE (drop 76 (disk full_state 5))))
   \<and> read_inode lab_geometry
        (snd (write_inode lab_geometry full_state 54 zero_inode)) 54 = Some zero_inode
   \<and> read_inode lab_geometry
        (snd (write_inode lab_geometry full_state 54 zero_inode)) 53
        = read_inode lab_geometry full_state 53"
proof -
  note t = read_write_inode_location [OF zero_inode_ok]
  have b: "inode_slot_block lab_geometry 54 = 5" "inode_slot_offset lab_geometry 54 = 76"
    by (simp_all add: inode_slot_block_def inode_slot_offset_def INODES_PER_BLOCK_def
        lab_geometry_def INODE_SIZE_def)
  have v: "valid_block lab_geometry (int (inode_slot_block lab_geometry 54))"
    unfolding b by (simp add: valid_block_def lab_geometry_def)
  have r: "(54::int) < int INODE_COUNT" "(0::int) \<le> 54" by (simp_all add: INODE_COUNT_def)
  have sz: "INODE_SIZE \<le> BLOCK_SIZE lab_geometry"
    "length (disk full_state (inode_slot_block lab_geometry 54)) = BLOCK_SIZE lab_geometry"
    by (simp_all add: INODE_SIZE_def lab_geometry_def full_state_def)
  have c1: "read_inode lab_geometry blank_state 32768 = None
            \<and> write_inode lab_geometry blank_state 32768 zero_inode = (- 1, blank_state)"
    using t [of 32768 lab_geometry blank_state] by (simp add: INODE_COUNT_def)
  have c2: "read_inode lab_geometry blank_state (- 1) = None
            \<and> write_inode lab_geometry blank_state (- 1) zero_inode = (- 1, blank_state)"
    using t [of "- 1" lab_geometry blank_state] by (simp add: lab_geometry_def)
  have c3: "read_inode \<lparr>BLOCK_SIZE = 4096, BLOCK_NUM = 4\<rparr> blank_state 0 = None"
    using t [of 0 "\<lparr>BLOCK_SIZE = 4096, BLOCK_NUM = 4\<rparr>" blank_state]
    by (simp add: INODE_COUNT_def inode_slot_block_def valid_block_def)
  have c4: "read_inode lab_geometry full_state 54
        = Some (decode_inode (take INODE_SIZE (drop 76 (disk full_state 5))))"
    using t [of 54 lab_geometry full_state] v r by (simp add: b)
  have p5: "0 \<le> (54::int) \<and> 54 < int INODE_COUNT
            \<and> valid_block lab_geometry (int (inode_slot_block lab_geometry 54))
            \<and> INODE_SIZE \<le> BLOCK_SIZE lab_geometry
            \<and> length (disk full_state (inode_slot_block lab_geometry 54))
                = BLOCK_SIZE lab_geometry"
    using v r sz by simp
  note t5 = t [of 54 lab_geometry full_state, THEN conjunct2, THEN conjunct2, THEN conjunct2,
      THEN conjunct2, THEN mp, OF p5]
  have p53: "0 \<le> (53::int) \<and> 53 < int INODE_COUNT \<and> (53::int) \<noteq> 54"
    by (simp add: INODE_COUNT_def)
  have c5: "read_inode lab_geometry
        (snd (write_inode lab_geometry full_state 54 zero_inode)) 54 = Some zero_inode
      \<and> read_inode lab_geometry
        (snd (write_inode lab_geometry full_state 54 zero_inode)) 53
        = read_inode lab_geometry full_state 53"
    using t5 [THEN conjunct1] t5 [THEN conjunct2, THEN spec, of 53, THEN mp, OF p53]
    by (rule conjI)
  show ?thesis
    using zero_inode_ok c1 c2 c3 c4 c5 v b by simp
qed








lemma sample_file_ok: "inode_ok sample_file"
  by (simp add: inode_ok_def sample_file_def DIRECT_POINTERS_def INDIRECT_POINTERS_def)




section \<open>Claims about the format\<close>

lemma zero_blocks_sb: "sb (zero_blocks g z s i n) = sb s"
proof (induction g z s i n rule: zero_blocks.induct)
  case (1 g block s i n)
  show ?case
  proof (cases "i < n")
    case True
    then show ?thesis
      using "1.IH" by (simp add: zero_blocks.simps [of g block s i n] disk_write_def)
  next
    case False
    then show ?thesis by (simp add: zero_blocks.simps [of g block s i n])
  qed
qed

lemma zero_blocks_disk:
  "0 \<le> i \<Longrightarrow> n \<le> int (BLOCK_NUM g) \<Longrightarrow>
     disk (zero_blocks g z s i n) k = (if i \<le> int k \<and> int k < n then z else disk s k)"
proof (induction g z s i n rule: zero_blocks.induct)
  case (1 g block s i n)
  show ?case
  proof (cases "i < n")
    case True
    then have v: "valid_block g i"
      using "1.prems" by (simp add: valid_block_def)
    have "disk (zero_blocks g block (snd (disk_write g s i block)) (i + 1) n) k
          = (if i + 1 \<le> int k \<and> int k < n then block
             else disk (snd (disk_write g s i block)) k)"
      using "1.IH" [OF True] "1.prems" by simp
    then show ?thesis
      using True v "1.prems"
      by (auto simp: zero_blocks.simps [of g block s i n] disk_write_def)
  next
    case False
    then show ?thesis by (auto simp: zero_blocks.simps [of g block s i n])
  qed
qed

lemma bitmap_test_zero: "i div 8 < n \<Longrightarrow> \<not> bitmap_test (replicate n 0) i"
  by (simp add: bitmap_test_def)

lemma alloc_scan_first: "0 < n \<Longrightarrow> \<not> bitmap_test bitmap 0 \<Longrightarrow> alloc_scan bitmap n 0 = Some 0"
  by (simp add: alloc_scan.simps [of bitmap n 0])

lemma root_inode_ok: "inode_ok (root_inode_at now)"
  by (simp add: inode_ok_def root_inode_at_def)

lemma root_inode_eq:
  "update_timestamp now (zero_inode\<lparr>mode := DIRMODE, size := 0\<rparr>) True True True
   = root_inode_at now"
  by (simp add: update_timestamp_def zero_inode_def root_inode_at_def)

lemma length_encode_sb [simp]: "length (encode_sb b) = 20"
  by (simp add: encode_sb_def)

lemma fs_mount_format_state:
  assumes fit: "INODE_COUNT \<le> 8 * BLOCK_SIZE g"
    and dev: "4 + ceil_div (INODE_COUNT * INODE_SIZE) (BLOCK_SIZE g) \<le> BLOCK_NUM g"
    and fl: "init_flag \<noteq> 0"
  shows "fs_mount g uninit now s init_flag =
     (0, \<lparr>sb = format_sb g,
          disk = (\<lambda>k. if k = 0 then encode_sb (format_sb g) @ replicate (BLOCK_SIZE g - 20) 0
                      else if k = 1 then bitmap_set (replicate (BLOCK_SIZE g) 0) 0
                      else if k = 4 then encode_inode (root_inode_at now)
                                         @ replicate (BLOCK_SIZE g - INODE_SIZE) 0
                      else if int k < data_blocks_start (format_sb g)
                        then replicate (BLOCK_SIZE g) 0
                      else disk s k)\<rparr>)"
proof -
  define T where "T = ceil_div (INODE_COUNT * INODE_SIZE) (BLOCK_SIZE g)"
  define z where "z = replicate (BLOCK_SIZE g) (0::byte)"
  have bs: "4096 \<le> BLOCK_SIZE g" using fit by (simp add: INODE_COUNT_def)
  have Tpos: "0 < T"
    using bs by (simp add: T_def ceil_div_def INODE_COUNT_def INODE_SIZE_def div_greater_zero_iff)
  have bn: "5 \<le> BLOCK_NUM g" using dev Tpos by (simp add: T_def)
  define s1 where "s1 = s\<lparr>sb := format_sb g\<rparr>"
  define b0 where "b0 = memcpy_at z 0 (encode_sb (format_sb g))"
  define s2 where "s2 = snd (disk_write g s1 SUPERBLOCK_BLOCK b0)"
  define s3 where "s3 = zero_blocks g z s2 INODE_BITMAP_BLOCK (4 + int T)"
  have s2: "s2 = s1\<lparr>disk := (disk s1)(0 := b0)\<rparr>"
    using bn by (simp add: s2_def disk_write_def valid_block_def SUPERBLOCK_BLOCK_def)
  have sb3: "sb s3 = format_sb g"
    by (simp add: s3_def zero_blocks_sb s2 s1_def)
  have d3: "disk s3 k = (if 1 \<le> k \<and> int k < 4 + int T then z else if k = 0 then b0 else disk s k)"
    for k
    using dev
    by (auto simp: s3_def zero_blocks_disk INODE_BITMAP_BLOCK_def T_def s2 s1_def)
  have v1: "valid_block g INODE_BITMAP_BLOCK"
    using bn by (simp add: valid_block_def INODE_BITMAP_BLOCK_def)
  have z1: "disk s3 1 = z" using d3 [of 1] by simp
  have c0: "\<not> bitmap_test z 0"
    using bs by (simp add: z_def bitmap_test_zero)
  have z1': "disk s3 (Suc 0) = z" using z1 by simp
  have n3: "nat (num_inodes (sb s3)) = 32768"
    by (simp add: sb3 format_sb_def INODE_COUNT_def)
  have sc: "alloc_scan (disk s3 1) (nat (num_inodes (sb s3))) 0 = Some 0"
    unfolding z1 n3 by (rule alloc_scan_first) (simp, rule c0)
  define s4 where "s4 = s3\<lparr>disk := (disk s3)(1 := bitmap_set z 0)\<rparr>"
  have a: "alloc_inode g uninit s3 = (0, s4)"
    using alloc_inode_Some [OF v1 sc, of uninit] by (simp add: s4_def z1')
  have blk0: "inode_slot_block g 0 = 4" "inode_slot_offset g 0 = 0"
    by (simp_all add: inode_slot_block_def inode_slot_offset_def)
  have v4: "valid_block g (int (inode_slot_block g 0))"
    using bn by (simp add: blk0 valid_block_def)
  have z4: "disk s4 4 = z" using d3 [of 4] Tpos by (simp add: s4_def)
  have w: "write_inode g s4 0 (root_inode_at now)
           = (0, s4\<lparr>disk := (disk s4)(4 := memcpy_at z 0 (encode_inode (root_inode_at now)))\<rparr>)"
    using write_inode_in_range [of 0 g s4 "root_inode_at now", OF _ _ v4]
    by (simp add: blk0 z4 INODE_COUNT_def)
  have m0: "b0 = encode_sb (format_sb g) @ replicate (BLOCK_SIZE g - 20) 0"
    using bs by (simp add: b0_def memcpy_at_def z_def)
  have m4: "memcpy_at z 0 (encode_inode (root_inode_at now))
            = encode_inode (root_inode_at now) @ replicate (BLOCK_SIZE g - INODE_SIZE) 0"
    using bs length_encode_inode [OF root_inode_ok, of now]
    by (simp add: memcpy_at_def z_def)
  have unfold: "fs_mount g uninit now s init_flag
                = (0, snd (write_inode g s4 0 (root_inode_at now)))"
    using fl a
    by (simp add: fs_mount_def Let_def root_inode_eq s3_def s2_def s1_def b0_def z_def T_def
        format_sb_def INODE_TABLE_START_BLOCK_def)
  have "s4\<lparr>disk := (disk s4)(4 := memcpy_at z 0 (encode_inode (root_inode_at now)))\<rparr>
        = \<lparr>sb = format_sb g,
           disk = (\<lambda>k. if k = 0 then encode_sb (format_sb g) @ replicate (BLOCK_SIZE g - 20) 0
                      else if k = 1 then bitmap_set (replicate (BLOCK_SIZE g) 0) 0
                      else if k = 4 then encode_inode (root_inode_at now)
                                         @ replicate (BLOCK_SIZE g - INODE_SIZE) 0
                      else if int k < data_blocks_start (format_sb g)
                        then replicate (BLOCK_SIZE g) 0
                      else disk s k)\<rparr>"
  proof (rule fs_state.equality)
    show "sb (s4\<lparr>disk := (disk s4)(4 := memcpy_at z 0 (encode_inode (root_inode_at now)))\<rparr>)
          = sb \<lparr>sb = format_sb g,
           disk = (\<lambda>k. if k = 0 then encode_sb (format_sb g) @ replicate (BLOCK_SIZE g - 20) 0
                      else if k = 1 then bitmap_set (replicate (BLOCK_SIZE g) 0) 0
                      else if k = 4 then encode_inode (root_inode_at now)
                                         @ replicate (BLOCK_SIZE g - INODE_SIZE) 0
                      else if int k < data_blocks_start (format_sb g)
                        then replicate (BLOCK_SIZE g) 0
                      else disk s k)\<rparr>"
      by (simp add: s4_def sb3)
    have dbs: "data_blocks_start (format_sb g) = 4 + int T"
      by (simp add: format_sb_def T_def)
    have "disk (s4\<lparr>disk := (disk s4)(4 := memcpy_at z 0 (encode_inode (root_inode_at now)))\<rparr>) k
          = (if k = 0 then encode_sb (format_sb g) @ replicate (BLOCK_SIZE g - 20) 0
                      else if k = 1 then bitmap_set (replicate (BLOCK_SIZE g) 0) 0
                      else if k = 4 then encode_inode (root_inode_at now)
                                         @ replicate (BLOCK_SIZE g - INODE_SIZE) 0
                      else if int k < data_blocks_start (format_sb g)
                        then replicate (BLOCK_SIZE g) 0
                      else disk s k)" for k
      unfolding dbs m4 using d3 [of k] m0
      by (auto simp: s4_def z_def)
    then show "disk (s4\<lparr>disk := (disk s4)(4 := memcpy_at z 0 (encode_inode (root_inode_at now)))\<rparr>)
          = disk \<lparr>sb = format_sb g,
           disk = (\<lambda>k. if k = 0 then encode_sb (format_sb g) @ replicate (BLOCK_SIZE g - 20) 0
                      else if k = 1 then bitmap_set (replicate (BLOCK_SIZE g) 0) 0
                      else if k = 4 then encode_inode (root_inode_at now)
                                         @ replicate (BLOCK_SIZE g - INODE_SIZE) 0
                      else if int k < data_blocks_start (format_sb g)
                        then replicate (BLOCK_SIZE g) 0
                      else disk s k)\<rparr>"
      by (simp add: fun_eq_iff)
  qed simp
  then show ?thesis
    by (simp add: unfold w)
qed

lemma bitmap_zero_set0:
  assumes "0 < n" "j < 8 * n"
  shows "bitmap_test (bitmap_set (replicate n 0) 0) j = (j = 0)"
proof -
  have "bitmap_test (bitmap_set (replicate n 0) 0) j
        = (j = 0 \<or> bitmap_test (replicate n 0) j)"
    using assms by (intro bitmap_test_set) simp_all
  then show ?thesis
    using assms bitmap_test_zero [of j n] by simp
qed

lemma formatted_root_inode:
  assumes "INODE_COUNT \<le> 8 * BLOCK_SIZE g"
    and "4 + ceil_div (INODE_COUNT * INODE_SIZE) (BLOCK_SIZE g) \<le> BLOCK_NUM g"
    and "init_flag \<noteq> 0"
  shows "read_inode g (snd (fs_mount g uninit now s init_flag)) 0 = Some (root_inode_at now)"
proof -
  note st = fs_mount_format_state [OF assms, of uninit now s]
  have bs: "4096 \<le> BLOCK_SIZE g" using assms(1) by (simp add: INODE_COUNT_def)
  have d5: "5 \<le> data_blocks_start (format_sb g)"
    using bs by (simp add: format_sb_def ceil_div_def INODE_COUNT_def INODE_SIZE_def
        div_greater_zero_iff Suc_le_eq)
  have v: "valid_block g (int (inode_slot_block g 0))"
    using assms(2) d5 by (simp add: format_sb_def inode_slot_block_def valid_block_def)
  have "take INODE_SIZE (encode_inode (root_inode_at now)
          @ replicate (BLOCK_SIZE g - INODE_SIZE) 0) = encode_inode (root_inode_at now)"
    using length_encode_inode [OF root_inode_ok, of now] by simp
  then show ?thesis
    using read_inode_in_range [of 0 g _ , OF _ _ v] decode_encode_inode [OF root_inode_ok, of now]
    by (simp add: st INODE_COUNT_def inode_slot_block_def inode_slot_offset_def)
qed

lemma rd32_encode_sb:
  "rd32 (encode_sb b @ rest) 0 = word_of_int (num_inodes b)"
  "rd32 (encode_sb b @ rest) 4 = word_of_int (num_data_blocks b)"
  "rd32 (encode_sb b @ rest) 8 = word_of_int (inode_table_blocks b)"
  "rd32 (encode_sb b @ rest) 12 = word_of_int (data_bitmap_blocks b)"
  "rd32 (encode_sb b @ rest) 16 = word_of_int (data_blocks_start b)"
proof -
  let ?ws = "map word_of_int [num_inodes b, num_data_blocks b, inode_table_blocks b,
                              data_bitmap_blocks b, data_blocks_start b] :: u32 list"
  have e: "encode_sb b = concat (map le32 ?ws)"
    by (simp add: encode_sb_def)
  have rd: "rd32 (encode_sb b @ rest) (4 * k) = ?ws ! k" if "k < 5" for k
    unfolding e using rd32_concat_le32 [of k ?ws rest] that by simp
  show "rd32 (encode_sb b @ rest) 0 = word_of_int (num_inodes b)" using rd [of 0] by simp
  show "rd32 (encode_sb b @ rest) 4 = word_of_int (num_data_blocks b)" using rd [of 1] by simp
  show "rd32 (encode_sb b @ rest) 8 = word_of_int (inode_table_blocks b)" using rd [of 2] by simp
  show "rd32 (encode_sb b @ rest) 12 = word_of_int (data_bitmap_blocks b)" using rd [of 3] by simp
  show "rd32 (encode_sb b @ rest) 16 = word_of_int (data_blocks_start b)" using rd [of 4] by simp
qed

lemma sint_word_of_int_32:
  "- (2 ^ 31) \<le> v \<Longrightarrow> v < 2 ^ 31 \<Longrightarrow> sint (word_of_int v :: u32) = v"
  by (simp add: signed_of_int signed_take_bit_int_eq_self)

lemma decode_encode_sb:
  assumes "sb_fits_int b"
  shows "decode_sb (take 20 (encode_sb b @ rest)) = b"
proof -
  have t: "take 20 (encode_sb b @ rest) = encode_sb b @ []" by simp
  show ?thesis
    unfolding t decode_sb_def rd32_encode_sb
    using assms by (simp add: sb_fits_int_def sint_word_of_int_32)
qed

lemma format_sb_fits:
  assumes "INODE_COUNT \<le> 8 * BLOCK_SIZE g"
    and "4 + ceil_div (INODE_COUNT * INODE_SIZE) (BLOCK_SIZE g) \<le> BLOCK_NUM g"
    and "BLOCK_NUM g < 2 ^ 31"
  shows "sb_fits_int (format_sb g)"
proof -
  have "int (ceil_div (INODE_COUNT * INODE_SIZE) (BLOCK_SIZE g)) + 4 \<le> int (BLOCK_NUM g)"
    using assms(2) by linarith
  moreover have "int (BLOCK_NUM g) < 2 ^ 31" using assms(3) by simp
  ultimately show ?thesis
    by (simp add: sb_fits_int_def format_sb_def INODE_COUNT_def)
qed

text \<open>
  C2. On a device that holds the inode bitmap in one block and the whole metadata area,
  \<open>fs_mount\<close> with a nonzero \<open>init_flag\<close> returns 0 and leaves: the computed
  superblock in \<open>sb\<close> and in block 0, whose first twenty bytes read back, four by
  four, as \<open>INODE_COUNT\<close>, the number of data blocks, the length of the inode table,
  2 and the start of the data area, and whose other bytes are zero, so that a mount
  with \<open>init_flag = 0\<close> afterwards loads the same superblock; in block 1 a bitmap in
  which bit 0 is set and no other; in block 4 the root inode followed by zero bytes;
  every other block from 2 up to \<open>data_blocks_start - 1\<close> zero; the data area
  untouched. Inode 0 reads back as the root directory \<open>root_inode_at now\<close>: mode
  \<open>DIRMODE\<close>, size 0, all twelve direct and both indirect pointers zero.
\<close>

theorem fs_mount_format:
  assumes "INODE_COUNT \<le> 8 * BLOCK_SIZE g"
    and "4 + ceil_div (INODE_COUNT * INODE_SIZE) (BLOCK_SIZE g) \<le> BLOCK_NUM g"
    and "init_flag \<noteq> 0"
  shows "fst (fs_mount g uninit now s init_flag) = 0
       \<and> sb (snd (fs_mount g uninit now s init_flag)) = format_sb g
       \<and> data_blocks_start (format_sb g) = 4 + inode_table_blocks (format_sb g)
       \<and> disk (snd (fs_mount g uninit now s init_flag)) 0
           = encode_sb (format_sb g) @ replicate (BLOCK_SIZE g - 20) 0
       \<and> rd32 (disk (snd (fs_mount g uninit now s init_flag)) 0) 0 = word_of_nat INODE_COUNT
       \<and> rd32 (disk (snd (fs_mount g uninit now s init_flag)) 0) 4
           = word_of_int (int (BLOCK_NUM g) - data_blocks_start (format_sb g))
       \<and> rd32 (disk (snd (fs_mount g uninit now s init_flag)) 0) 8
           = word_of_nat (ceil_div (INODE_COUNT * INODE_SIZE) (BLOCK_SIZE g))
       \<and> rd32 (disk (snd (fs_mount g uninit now s init_flag)) 0) 12 = 2
       \<and> rd32 (disk (snd (fs_mount g uninit now s init_flag)) 0) 16
           = word_of_nat (4 + ceil_div (INODE_COUNT * INODE_SIZE) (BLOCK_SIZE g))
       \<and> length (disk (snd (fs_mount g uninit now s init_flag)) 0) = BLOCK_SIZE g
       \<and> (\<forall>k. 20 \<le> k \<and> k < BLOCK_SIZE g \<longrightarrow>
             disk (snd (fs_mount g uninit now s init_flag)) 0 ! k = 0)
       \<and> (BLOCK_NUM g < 2 ^ 31 \<longrightarrow>
             decode_sb (take 20 (disk (snd (fs_mount g uninit now s init_flag)) 0)) = format_sb g
             \<and> fs_mount g uninit' now' (snd (fs_mount g uninit now s init_flag)) 0
                 = (0, snd (fs_mount g uninit now s init_flag)))
       \<and> bitmap_test (disk (snd (fs_mount g uninit now s init_flag)) 1) 0
       \<and> (\<forall>j. 0 < j \<and> j < 8 * BLOCK_SIZE g \<longrightarrow>
             \<not> bitmap_test (disk (snd (fs_mount g uninit now s init_flag)) 1) j)
       \<and> disk (snd (fs_mount g uninit now s init_flag)) 4
           = encode_inode (root_inode_at now) @ replicate (BLOCK_SIZE g - INODE_SIZE) 0
       \<and> (\<forall>k. 1 < k \<and> k \<noteq> 4 \<and> int k < data_blocks_start (format_sb g) \<longrightarrow>
             disk (snd (fs_mount g uninit now s init_flag)) k = replicate (BLOCK_SIZE g) 0)
       \<and> (\<forall>k. data_blocks_start (format_sb g) \<le> int k \<longrightarrow>
             disk (snd (fs_mount g uninit now s init_flag)) k = disk s k)
       \<and> read_inode g (snd (fs_mount g uninit now s init_flag)) 0 = Some (root_inode_at now)"
proof -
  note st = fs_mount_format_state [OF assms, of uninit now s]
  define s' where "s' = snd (fs_mount g uninit now s init_flag)"
  have bs: "4096 \<le> BLOCK_SIZE g" using assms(1) by (simp add: INODE_COUNT_def)
  have d5: "5 \<le> data_blocks_start (format_sb g)"
    using bs by (simp add: format_sb_def ceil_div_def INODE_COUNT_def INODE_SIZE_def
        div_greater_zero_iff Suc_le_eq)
  have bits: "bitmap_test (bitmap_set (replicate (BLOCK_SIZE g) 0) 0) j = (j = 0)"
    if "j < 8 * BLOCK_SIZE g" for j
    using bitmap_zero_set0 [of "BLOCK_SIZE g" j] bs that by simp
  have rd: "read_inode g s' 0 = Some (root_inode_at now)"
    unfolding s'_def by (rule formatted_root_inode [OF assms])
  have dt: "data_blocks_start (format_sb g) = 4 + inode_table_blocks (format_sb g)"
    by (simp add: format_sb_def)
  have b1: "bitmap_test (disk s' 1) 0"
    using bits [of 0] bs by (simp add: st s'_def)
  have b2: "\<forall>j. 0 < j \<and> j < 8 * BLOCK_SIZE g \<longrightarrow> \<not> bitmap_test (disk s' 1) j"
    using bits by (simp add: st s'_def)
  have z: "\<forall>k. 1 < k \<and> k \<noteq> 4 \<and> int k < data_blocks_start (format_sb g) \<longrightarrow>
             disk s' k = replicate (BLOCK_SIZE g) 0"
    by (simp add: st s'_def)
  have fr: "\<forall>k. data_blocks_start (format_sb g) \<le> int k \<longrightarrow> disk s' k = disk s k"
    using d5 by (auto simp: st s'_def)
  have r0: "fst (fs_mount g uninit now s init_flag) = 0"
    and sb': "sb s' = format_sb g"
    and d0: "disk s' 0 = encode_sb (format_sb g) @ replicate (BLOCK_SIZE g - 20) 0"
    and d4: "disk s' 4
           = encode_inode (root_inode_at now) @ replicate (BLOCK_SIZE g - INODE_SIZE) 0"
    by (simp_all add: st s'_def)
  have f0: "rd32 (disk s' 0) 0 = word_of_nat INODE_COUNT"
    and f4: "rd32 (disk s' 0) 4
             = word_of_int (int (BLOCK_NUM g) - data_blocks_start (format_sb g))"
    and f8: "rd32 (disk s' 0) 8
             = word_of_nat (ceil_div (INODE_COUNT * INODE_SIZE) (BLOCK_SIZE g))"
    and f12: "rd32 (disk s' 0) 12 = 2"
    and f16: "rd32 (disk s' 0) 16
             = word_of_nat (4 + ceil_div (INODE_COUNT * INODE_SIZE) (BLOCK_SIZE g))"
    unfolding d0 rd32_encode_sb by (simp_all add: format_sb_def)
  have len: "length (disk s' 0) = BLOCK_SIZE g"
    using bs by (simp add: d0)
  have pad: "\<forall>k. 20 \<le> k \<and> k < BLOCK_SIZE g \<longrightarrow> disk s' 0 ! k = 0"
    by (auto simp: d0 nth_append)
  have load: "BLOCK_NUM g < 2 ^ 31 \<longrightarrow>
             decode_sb (take 20 (disk s' 0)) = format_sb g
             \<and> fs_mount g uninit' now' s' 0 = (0, s')"
  proof
    assume bn: "BLOCK_NUM g < 2 ^ 31"
    have dec: "decode_sb (take 20 (disk s' 0)) = format_sb g"
      unfolding d0 by (rule decode_encode_sb [OF format_sb_fits [OF assms(1,2) bn]])
    have v: "valid_block g SUPERBLOCK_BLOCK"
      using assms(2) by (simp add: valid_block_def SUPERBLOCK_BLOCK_def)
    have "fs_mount g uninit' now' s' 0 = (0, s'\<lparr>sb := decode_sb (take 20 (disk s' 0))\<rparr>)"
      using v by (simp add: fs_mount_def disk_read_def SUPERBLOCK_BLOCK_def)
    then have "fs_mount g uninit' now' s' 0 = (0, s')"
      by (simp add: dec sb' [symmetric])
    then show "decode_sb (take 20 (disk s' 0)) = format_sb g
               \<and> fs_mount g uninit' now' s' 0 = (0, s')"
      using dec by simp
  qed
  show ?thesis
    unfolding s'_def [symmetric]
    using r0 sb' dt d0 f0 f4 f8 f12 f16 len pad load b1 b2 d4 z fr rd by (intro conjI)
qed

theorem fs_mount_format_witness:
  "INODE_COUNT \<le> 8 * BLOCK_SIZE lab_geometry
   \<and> 4 + ceil_div (INODE_COUNT * INODE_SIZE) (BLOCK_SIZE lab_geometry) \<le> BLOCK_NUM lab_geometry
   \<and> BLOCK_NUM lab_geometry < 2 ^ 31
   \<and> fst (fs_mount lab_geometry [] 1700000000 full_state 1) = 0
   \<and> sb (snd (fs_mount lab_geometry [] 1700000000 full_state 1)) = lab_sb
   \<and> take 20 (disk (snd (fs_mount lab_geometry [] 1700000000 full_state 1)) 0)
       = [0, 128, 0, 0, 156, 253, 0, 0, 96, 2, 0, 0, 2, 0, 0, 0, 100, 2, 0, 0]
   \<and> rd32 (disk (snd (fs_mount lab_geometry [] 1700000000 full_state 1)) 0) 0 = 32768
   \<and> rd32 (disk (snd (fs_mount lab_geometry [] 1700000000 full_state 1)) 0) 4 = 64924
   \<and> rd32 (disk (snd (fs_mount lab_geometry [] 1700000000 full_state 1)) 0) 8 = 608
   \<and> rd32 (disk (snd (fs_mount lab_geometry [] 1700000000 full_state 1)) 0) 12 = 2
   \<and> rd32 (disk (snd (fs_mount lab_geometry [] 1700000000 full_state 1)) 0) 16 = 612
   \<and> disk (snd (fs_mount lab_geometry [] 1700000000 full_state 1)) 0 ! 20 = 0
   \<and> decode_sb (take 20 (disk (snd (fs_mount lab_geometry [] 1700000000 full_state 1)) 0))
       = lab_sb
   \<and> fs_mount lab_geometry [] 0 (snd (fs_mount lab_geometry [] 1700000000 full_state 1)) 0
       = (0, snd (fs_mount lab_geometry [] 1700000000 full_state 1))
   \<and> bitmap_test (disk (snd (fs_mount lab_geometry [] 1700000000 full_state 1)) 1) 0
   \<and> \<not> bitmap_test (disk (snd (fs_mount lab_geometry [] 1700000000 full_state 1)) 1) 1
   \<and> disk (snd (fs_mount lab_geometry [] 1700000000 full_state 1)) 611 = replicate 4096 0
   \<and> disk (snd (fs_mount lab_geometry [] 1700000000 full_state 1)) 612 = replicate 4096 255
   \<and> read_inode lab_geometry (snd (fs_mount lab_geometry [] 1700000000 full_state 1)) 0
       = Some (root_inode_at 1700000000)"
proof -
  have h1: "INODE_COUNT \<le> 8 * BLOCK_SIZE lab_geometry"
    by (simp add: INODE_COUNT_def lab_geometry_def)
  have h2: "4 + ceil_div (INODE_COUNT * INODE_SIZE) (BLOCK_SIZE lab_geometry)
            \<le> BLOCK_NUM lab_geometry"
    by (simp add: INODE_COUNT_def INODE_SIZE_def ceil_div_def lab_geometry_def)
  have h3: "(1::int) \<noteq> 0" by simp
  have h4: "BLOCK_NUM lab_geometry < 2 ^ 31" by (simp add: lab_geometry_def)
  have f: "format_sb lab_geometry = lab_sb"
    by (simp add: format_sb_def lab_sb_def lab_geometry_def INODE_COUNT_def INODE_SIZE_def
        ceil_div_def)
  have bsz: "BLOCK_SIZE lab_geometry = 4096" by (simp add: lab_geometry_def)
  have bnm: "BLOCK_NUM lab_geometry = 65536" by (simp add: lab_geometry_def)
  have dbs: "data_blocks_start lab_sb = 612" by (simp add: lab_sb_def)
  have cd: "ceil_div (INODE_COUNT * INODE_SIZE) 4096 = 608"
    by (simp add: INODE_COUNT_def INODE_SIZE_def ceil_div_def)
  note t = fs_mount_format [OF h1 h2 h3, of "[]" 1700000000 full_state "[]" 0]
  have c1: "fst (fs_mount lab_geometry [] 1700000000 full_state 1) = 0"
    by (rule t [THEN conjunct1])
  have c2: "sb (snd (fs_mount lab_geometry [] 1700000000 full_state 1)) = lab_sb"
    using t [THEN conjunct2, THEN conjunct1] by (simp add: f)
  have c4: "disk (snd (fs_mount lab_geometry [] 1700000000 full_state 1)) 0 = encode_sb lab_sb @ replicate 4076 0"
    using t [THEN conjunct2, THEN conjunct2, THEN conjunct2, THEN conjunct1] by (simp add: f bsz)
  have bytes: "take 20 (disk (snd (fs_mount lab_geometry [] 1700000000 full_state 1)) 0)
       = [0, 128, 0, 0, 156, 253, 0, 0, 96, 2, 0, 0, 2, 0, 0, 0, 100, 2, 0, 0]"
    unfolding c4 by (simp add: encode_sb_def lab_sb_def le32_def)
  have c5: "rd32 (disk (snd (fs_mount lab_geometry [] 1700000000 full_state 1)) 0) 0 = 32768"
    using t [THEN conjunct2, THEN conjunct2, THEN conjunct2, THEN conjunct2, THEN conjunct1] by (simp add: INODE_COUNT_def)
  have c6: "rd32 (disk (snd (fs_mount lab_geometry [] 1700000000 full_state 1)) 0) 4 = 64924"
    using t [THEN conjunct2, THEN conjunct2, THEN conjunct2, THEN conjunct2, THEN conjunct2, THEN conjunct1] by (simp add: f bnm dbs)
  have c7: "rd32 (disk (snd (fs_mount lab_geometry [] 1700000000 full_state 1)) 0) 8 = 608"
    using t [THEN conjunct2, THEN conjunct2, THEN conjunct2, THEN conjunct2, THEN conjunct2, THEN conjunct2, THEN conjunct1] by (simp add: bsz cd)
  have c8: "rd32 (disk (snd (fs_mount lab_geometry [] 1700000000 full_state 1)) 0) 12 = 2"
    by (rule t [THEN conjunct2, THEN conjunct2, THEN conjunct2, THEN conjunct2, THEN conjunct2, THEN conjunct2, THEN conjunct2, THEN conjunct1])
  have c9: "rd32 (disk (snd (fs_mount lab_geometry [] 1700000000 full_state 1)) 0) 16 = 612"
    using t [THEN conjunct2, THEN conjunct2, THEN conjunct2, THEN conjunct2, THEN conjunct2, THEN conjunct2, THEN conjunct2, THEN conjunct2, THEN conjunct1] by (simp add: bsz cd)
  have c11: "disk (snd (fs_mount lab_geometry [] 1700000000 full_state 1)) 0 ! 20 = 0"
    using t [THEN conjunct2, THEN conjunct2, THEN conjunct2, THEN conjunct2, THEN conjunct2, THEN conjunct2, THEN conjunct2, THEN conjunct2, THEN conjunct2, THEN conjunct2, THEN conjunct1, THEN spec, of 20] by (simp add: bsz)
  have c12: "decode_sb (take 20 (disk (snd (fs_mount lab_geometry [] 1700000000 full_state 1)) 0)) = lab_sb
      \<and> fs_mount lab_geometry [] 0 (snd (fs_mount lab_geometry [] 1700000000 full_state 1)) 0 = (0, snd (fs_mount lab_geometry [] 1700000000 full_state 1))"
    using t [THEN conjunct2, THEN conjunct2, THEN conjunct2, THEN conjunct2, THEN conjunct2, THEN conjunct2, THEN conjunct2, THEN conjunct2, THEN conjunct2, THEN conjunct2, THEN conjunct2, THEN conjunct1, THEN mp, OF h4] by (simp add: f)
  have c13: "bitmap_test (disk (snd (fs_mount lab_geometry [] 1700000000 full_state 1)) 1) 0"
    by (rule t [THEN conjunct2, THEN conjunct2, THEN conjunct2, THEN conjunct2, THEN conjunct2, THEN conjunct2, THEN conjunct2, THEN conjunct2, THEN conjunct2, THEN conjunct2, THEN conjunct2, THEN conjunct2, THEN conjunct1])
  have c14: "\<not> bitmap_test (disk (snd (fs_mount lab_geometry [] 1700000000 full_state 1)) 1) 1"
    using t [THEN conjunct2, THEN conjunct2, THEN conjunct2, THEN conjunct2, THEN conjunct2, THEN conjunct2, THEN conjunct2, THEN conjunct2, THEN conjunct2, THEN conjunct2, THEN conjunct2, THEN conjunct2, THEN conjunct2, THEN conjunct1, THEN spec, of 1] by (simp add: bsz)
  have c16: "disk (snd (fs_mount lab_geometry [] 1700000000 full_state 1)) 611 = replicate 4096 0"
    using t [THEN conjunct2, THEN conjunct2, THEN conjunct2, THEN conjunct2, THEN conjunct2, THEN conjunct2, THEN conjunct2, THEN conjunct2, THEN conjunct2, THEN conjunct2, THEN conjunct2, THEN conjunct2, THEN conjunct2, THEN conjunct2, THEN conjunct2, THEN conjunct1, THEN spec, of 611] by (simp add: f dbs bsz)
  have c17: "disk (snd (fs_mount lab_geometry [] 1700000000 full_state 1)) 612 = replicate 4096 255"
    using t [THEN conjunct2, THEN conjunct2, THEN conjunct2, THEN conjunct2, THEN conjunct2, THEN conjunct2, THEN conjunct2, THEN conjunct2, THEN conjunct2, THEN conjunct2, THEN conjunct2, THEN conjunct2, THEN conjunct2, THEN conjunct2, THEN conjunct2, THEN conjunct2, THEN conjunct1, THEN spec, of 612] by (simp add: f dbs full_state_def)
  have c18: "read_inode lab_geometry (snd (fs_mount lab_geometry [] 1700000000 full_state 1)) 0 = Some (root_inode_at 1700000000)"
    by (rule t [THEN conjunct2, THEN conjunct2, THEN conjunct2, THEN conjunct2, THEN conjunct2, THEN conjunct2, THEN conjunct2, THEN conjunct2, THEN conjunct2, THEN conjunct2, THEN conjunct2, THEN conjunct2, THEN conjunct2, THEN conjunct2, THEN conjunct2, THEN conjunct2, THEN conjunct2])
  show ?thesis
    using h1 h2 h4 c1 c2 bytes c5 c6 c7 c8 c9 c11 c12 c13 c14 c16 c17 c18
    by (intro conjI) simp_all
qed

section \<open>Claims about the block mapper\<close>

lemma block_mapper_index:
  assumes "BLOCK_SIZE g div 4 < 2 ^ 32" "12 \<le> (idx::u32)"
  shows "unat ((idx - 12) div word_of_nat (POINTERS_PER_BLOCK g)) = indirect_group_of g idx"
    and "unat ((idx - 12) mod word_of_nat (POINTERS_PER_BLOCK g)) = indirect_slot_of g idx"
proof -
  have p: "unat (word_of_nat (POINTERS_PER_BLOCK g) :: u32) = BLOCK_SIZE g div 4"
    using assms(1) by (simp add: POINTERS_PER_BLOCK_def of_nat_inverse)
  have k: "unat (idx - 12) = unat idx - 12"
    using assms(2) by (simp add: unat_sub)
  show "unat ((idx - 12) div word_of_nat (POINTERS_PER_BLOCK g)) = indirect_group_of g idx"
    by (simp add: unat_div p k indirect_group_of_def)
  show "unat ((idx - 12) mod word_of_nat (POINTERS_PER_BLOCK g)) = indirect_slot_of g idx"
    by (simp add: unat_mod p k indirect_slot_of_def)
qed

lemma block_mapper_direct:
  "idx < 12 \<Longrightarrow>
     get_directory_block_addr g s ino idx = direct_block_pointer ino ! unat idx"
  by (simp add: get_directory_block_addr_def)

lemma block_mapper_indirect:
  assumes "BLOCK_SIZE g div 4 < 2 ^ 32" "12 \<le> (idx::u32)"
  shows "get_directory_block_addr g s ino idx =
     (if indirect_group_of g idx < 2 then
        (if indirect_block_pointer ino ! indirect_group_of g idx = 0 then 0
         else case disk_read g s (sint (indirect_block_pointer ino ! indirect_group_of g idx)) of
                None \<Rightarrow> 0
              | Some pointers \<Rightarrow> rd32 pointers (4 * indirect_slot_of g idx))
      else 0)"
proof -
  have lt: "((idx - 12) div word_of_nat (POINTERS_PER_BLOCK g) < (2::u32))
            = (indirect_group_of g idx < 2)"
    using block_mapper_index(1) [OF assms] by (simp add: word_less_nat_alt)
  have nd: "\<not> idx < 12" using assms(2) by simp
  show ?thesis
    unfolding get_directory_block_addr_def Let_def lt block_mapper_index [OF assms]
    using nd by simp
qed

text \<open>
  C5. With \<open>k = logical_index - 12\<close>, \<open>g = k div (BLOCK_SIZE div 4)\<close> and
  \<open>o = k mod (BLOCK_SIZE div 4)\<close>, \<open>get_directory_block_addr\<close> returns
  \<open>direct[logical_index]\<close> for \<open>logical_index < 12\<close>; beyond that it returns 0 when
  \<open>g \<ge> 2\<close>, 0 when \<open>indirect[g]\<close> is zero, and otherwise slot \<open>o\<close> of the index
  block \<open>indirect[g]\<close>, the four bytes at offset \<open>4 * o\<close>, when the device has that
  block, and 0 when it has not. The 32-bit arithmetic of the source agrees with these
  formulas as long as \<open>BLOCK_SIZE div 4\<close> fits 32 bits.
\<close>

theorem block_mapper_read_only:
  assumes "BLOCK_SIZE g div 4 < 2 ^ 32"
  shows "(idx < 12 \<longrightarrow>
            get_directory_block_addr g s ino idx = direct_block_pointer ino ! unat idx)
       \<and> (12 \<le> idx \<and> 2 \<le> indirect_group_of g idx \<longrightarrow>
            get_directory_block_addr g s ino idx = 0)
       \<and> (12 \<le> idx \<and> indirect_group_of g idx < 2
            \<and> indirect_block_pointer ino ! indirect_group_of g idx = 0 \<longrightarrow>
            get_directory_block_addr g s ino idx = 0)
       \<and> (12 \<le> idx \<and> indirect_group_of g idx < 2
            \<and> indirect_block_pointer ino ! indirect_group_of g idx \<noteq> 0
            \<and> valid_block g (sint (indirect_block_pointer ino ! indirect_group_of g idx)) \<longrightarrow>
            get_directory_block_addr g s ino idx
              = rd32 (disk s (nat (sint (indirect_block_pointer ino ! indirect_group_of g idx))))
                  (4 * indirect_slot_of g idx))
       \<and> (12 \<le> idx \<and> indirect_group_of g idx < 2
            \<and> indirect_block_pointer ino ! indirect_group_of g idx \<noteq> 0
            \<and> \<not> valid_block g (sint (indirect_block_pointer ino ! indirect_group_of g idx)) \<longrightarrow>
            get_directory_block_addr g s ino idx = 0)"
  using block_mapper_direct [of idx g s ino] block_mapper_indirect [OF assms, of idx s ino]
  by (simp add: disk_read_def)

theorem block_mapper_read_only_witness:
  "BLOCK_SIZE lab_geometry div 4 < 2 ^ 32
   \<and> get_directory_block_addr lab_geometry full_state mapped_inode 0 = 700
   \<and> indirect_group_of lab_geometry 2060 = 2
   \<and> get_directory_block_addr lab_geometry full_state mapped_inode 2060 = 0
   \<and> indirect_group_of lab_geometry 1036 = 1
   \<and> get_directory_block_addr lab_geometry full_state mapped_inode 1036 = 0
   \<and> indirect_group_of lab_geometry 13 = 0 \<and> indirect_slot_of lab_geometry 13 = 1
   \<and> get_directory_block_addr lab_geometry full_state mapped_inode 13 = 4294967295
   \<and> get_directory_block_addr lab_geometry full_state stray_inode 13 = 0"
proof -
  have h: "BLOCK_SIZE lab_geometry div 4 < 2 ^ 32" by (simp add: lab_geometry_def)
  note t = block_mapper_read_only [OF h]
  have g1: "indirect_group_of lab_geometry 2060 = 2"
    and g2: "indirect_group_of lab_geometry 1036 = 1"
    and g3: "indirect_group_of lab_geometry 13 = 0"
    and o3: "indirect_slot_of lab_geometry 13 = 1"
    by (simp_all add: indirect_group_of_def indirect_slot_of_def lab_geometry_def)
  have c1: "get_directory_block_addr lab_geometry full_state mapped_inode 0 = 700"
  proof -
    have p: "(0::u32) < 12" by simp
    show ?thesis
      using t [of 0 full_state mapped_inode, THEN conjunct1, THEN mp, OF p]
      by (simp add: mapped_inode_def)
  qed
  have c2: "get_directory_block_addr lab_geometry full_state mapped_inode 2060 = 0"
  proof -
    have p: "12 \<le> (2060::u32) \<and> 2 \<le> indirect_group_of lab_geometry 2060"
      by (simp add: g1)
    show ?thesis
      by (rule t [of 2060 full_state mapped_inode, THEN conjunct2, THEN conjunct1, THEN mp, OF p])
  qed
  have c3: "get_directory_block_addr lab_geometry full_state mapped_inode 1036 = 0"
  proof -
    have p: "12 \<le> (1036::u32) \<and> indirect_group_of lab_geometry 1036 < 2
             \<and> indirect_block_pointer mapped_inode ! indirect_group_of lab_geometry 1036 = 0"
      by (simp add: g2 mapped_inode_def)
    show ?thesis
      by (rule t [of 1036 full_state mapped_inode, THEN conjunct2, THEN conjunct2,
            THEN conjunct1, THEN mp, OF p])
  qed
  have c4: "get_directory_block_addr lab_geometry full_state mapped_inode 13 = 4294967295"
  proof -
    have p: "12 \<le> (13::u32) \<and> indirect_group_of lab_geometry 13 < 2
             \<and> indirect_block_pointer mapped_inode ! indirect_group_of lab_geometry 13 \<noteq> 0
             \<and> valid_block lab_geometry
                 (sint (indirect_block_pointer mapped_inode ! indirect_group_of lab_geometry 13))"
      unfolding g3 by (simp add: mapped_inode_def valid_block_def lab_geometry_def)
    show ?thesis
      using t [of 13 full_state mapped_inode, THEN conjunct2, THEN conjunct2,
            THEN conjunct2, THEN conjunct1, THEN mp, OF p, unfolded g3 o3]
      by (simp add: mapped_inode_def full_state_def rd32_def)
  qed
  have c5: "get_directory_block_addr lab_geometry full_state stray_inode 13 = 0"
  proof -
    have p: "12 \<le> (13::u32) \<and> indirect_group_of lab_geometry 13 < 2
             \<and> indirect_block_pointer stray_inode ! indirect_group_of lab_geometry 13 \<noteq> 0
             \<and> \<not> valid_block lab_geometry
                 (sint (indirect_block_pointer stray_inode ! indirect_group_of lab_geometry 13))"
      unfolding g3 by (simp add: stray_inode_def valid_block_def lab_geometry_def)
    show ?thesis
      by (rule t [of 13 full_state stray_inode, THEN conjunct2, THEN conjunct2,
            THEN conjunct2, THEN conjunct2, THEN mp, OF p])
  qed
  show ?thesis
    using h c1 g1 c2 g2 c3 g3 o3 c4 c5 by (intro conjI)
qed


section \<open>Claims about path resolution and fs_getattr\<close>

lemma strtok_all_one:
  "0x2F \<notin> set xs \<Longrightarrow> cur @ xs \<noteq> [] \<Longrightarrow> strtok_all cur xs = [cur @ xs]"
  by (induction xs arbitrary: cur) auto

lemma sample_root_ok: "inode_ok (sample_root sz)"
  by (simp add: inode_ok_def sample_root_def DIRECT_POINTERS_def INDIRECT_POINTERS_def)

lemma lab_slots:
  "inode_slot_block lab_geometry 0 = 4" "inode_slot_offset lab_geometry 0 = 0"
  "inode_slot_block lab_geometry 1 = 4" "inode_slot_offset lab_geometry 1 = INODE_SIZE"
  by (simp_all add: inode_slot_block_def inode_slot_offset_def INODES_PER_BLOCK_def
      lab_geometry_def INODE_SIZE_def)

lemma lab_valid_4: "valid_block lab_geometry 4"
  by (simp add: valid_block_def lab_geometry_def)

lemma sample_read_root:
  "read_inode lab_geometry (sample_state entries sz) 0 = Some (sample_root sz)"
proof -
  have v: "valid_block lab_geometry (int (inode_slot_block lab_geometry 0))"
    using lab_valid_4 by (simp add: lab_slots)
  have "take INODE_SIZE (encode_inode (sample_root sz) @ encode_inode sample_file
           @ replicate (4096 - 2 * INODE_SIZE) 0) = encode_inode (sample_root sz)"
    using length_encode_inode [OF sample_root_ok, of sz] by simp
  then show ?thesis
    using read_inode_in_range [of 0 lab_geometry "sample_state entries sz", OF _ _ v]
    by (simp add: lab_slots INODE_COUNT_def sample_state_def
        decode_encode_inode [OF sample_root_ok])
qed

lemma sample_read_file:
  "read_inode lab_geometry (sample_state entries sz) 1 = Some sample_file"
proof -
  have v: "valid_block lab_geometry (int (inode_slot_block lab_geometry 1))"
    using lab_valid_4 by (simp add: lab_slots)
  have "take INODE_SIZE (drop INODE_SIZE (encode_inode (sample_root sz) @ encode_inode sample_file
           @ replicate (4096 - 2 * INODE_SIZE) 0)) = encode_inode sample_file"
    using length_encode_inode [OF sample_root_ok, of sz] length_encode_inode [OF sample_file_ok]
    by simp
  then show ?thesis
    using read_inode_in_range [of 1 lab_geometry "sample_state entries sz", OF _ _ v]
    by (simp add: lab_slots INODE_COUNT_def sample_state_def
        decode_encode_inode [OF sample_file_ok])
qed


lemma rd32_at_append: "rd32 (xs @ ys) (length xs + k) = rd32 ys k"
  by (simp add: rd32_def nth_append)

lemma rd32_at_prefix: "k + 3 < length xs \<Longrightarrow> rd32 (xs @ ys) k = rd32 xs k"
  by (simp add: rd32_def nth_append)

lemma first_entry_inode_num:
  assumes "length name \<le> DIRENT_INO_OFFSET"
  shows "entry_inode_num (dir_entry name ino @ rest) 0 = ino"
proof -
  have l: "length (name @ replicate (DIRENT_INO_OFFSET - length name) 0) = DIRENT_INO_OFFSET"
    using assms by simp
  have "rd32 ((name @ replicate (DIRENT_INO_OFFSET - length name) 0) @ (le32 ino @ rest))
          (length (name @ replicate (DIRENT_INO_OFFSET - length name) 0) + 0)
        = rd32 (le32 ino @ rest) 0"
    by (rule rd32_at_append)
  then show ?thesis
    using l by (simp add: entry_inode_num_def dir_entry_def rd32_append_le32_0)
qed

lemma first_entry_name_is:
  assumes "length name < DIRENT_INO_OFFSET"
  shows "entry_name_is (dir_entry name ino @ rest) 0 name"
proof -
  have "replicate (DIRENT_INO_OFFSET - length name) (0::byte)
        = 0 # replicate (DIRENT_INO_OFFSET - length name - 1) 0"
    using assms by (cases "DIRENT_INO_OFFSET - length name") simp_all
  then show ?thesis
    by (simp add: entry_name_is_def dir_entry_def)
qed

lemma find_in_block_first:
  assumes "length name < DIRENT_INO_OFFSET" "ino \<noteq> 0" "0 < n"
  shows "find_in_block (dir_entry name ino @ rest) name n 0 = Some ino"
  using assms first_entry_inode_num [of name ino rest] first_entry_name_is [OF assms(1), of ino rest]
  by (simp add: find_in_block.simps [of _ name n 0])

lemma lab_entries: "ENTRIES_PER_BLOCK lab_geometry = 128"
  by (simp add: ENTRIES_PER_BLOCK_def lab_geometry_def DIRENT_SIZE_def)

lemma sample_root_lookup:
  assumes "length name < DIRENT_INO_OFFSET" "ino \<noteq> 0"
  shows "find_entry_in_directory lab_geometry (sample_state (dir_entry name ino @ rest) 32)
           (sample_root 32) name = Some ino"
proof -
  have nb: "num_blocks_to_check lab_geometry (sample_root 32) = 1"
    by (simp add: num_blocks_to_check_def sample_root_def lab_geometry_def)
  have dir: "S_ISDIR (mode (sample_root 32))"
    by (simp add: S_ISDIR_def sample_root_def DIRMODE_def)
  have a: "get_directory_block_addr lab_geometry s (sample_root 32) 0 = 612" for s
    by (simp add: get_directory_block_addr_def sample_root_def)
  have r: "disk_read lab_geometry (sample_state (dir_entry name ino @ rest) 32) 612
           = Some (dir_entry name ino
                   @ (rest @ replicate (4096 - length (dir_entry name ino @ rest)) 0))"
    by (simp add: disk_read_def valid_block_def lab_geometry_def sample_state_def)
  have fb: "find_in_block (dir_entry name ino @ tail) name 128 0 = Some ino" for tail
    by (rule find_in_block_first [OF assms]) simp
  have "find_in_blocks lab_geometry (sample_state (dir_entry name ino @ rest) 32)
          (sample_root 32) name 1 0 = Some ino"
    by (subst find_in_blocks.simps) (simp add: a r fb lab_entries)
  then show ?thesis
    unfolding find_entry_in_directory_def nb using dir by simp
qed

lemma sample_resolve:
  assumes "length name < DIRENT_INO_OFFSET" "ino \<noteq> 0" "0x2F \<notin> set name" "name \<noteq> []"
  shows "find_inode_by_path lab_geometry (sample_state (dir_entry name ino @ rest) 32)
           (0x2F # name) = Inr ino"
proof -
  have tk: "strtok_all [] name = [name]"
    using strtok_all_one [of name "[]"] assms(3,4) by simp
  show ?thesis
    using assms(4)
    by (simp add: find_inode_by_path_def tk sample_read_root
        sample_root_lookup [OF assms(1,2)])
qed

lemma num_blocks_empty:
  assumes "0 < BLOCK_SIZE g" "BLOCK_SIZE g < 2 ^ 32" "size d = 0"
  shows "num_blocks_to_check g d = 0"
proof -
  have u: "unat (word_of_nat (BLOCK_SIZE g) :: u32) = BLOCK_SIZE g"
    using assms(2) by (simp add: of_nat_inverse)
  then have nz: "(word_of_nat (BLOCK_SIZE g) :: u32) \<noteq> 0"
    using assms(1) by (metis less_numeral_extra(3) unat_0)
  have "unat ((word_of_nat (BLOCK_SIZE g) :: u32) - 1) = BLOCK_SIZE g - 1"
    using unat_minus_one [OF nz] u by simp
  then show ?thesis
    using assms(1) by (simp add: num_blocks_to_check_def assms(3) unat_div u)
qed

lemma find_entry_empty:
  "num_blocks_to_check g d = 0 \<Longrightarrow> find_entry_in_directory g s d name = None"
  by (simp add: find_entry_in_directory_def find_in_blocks.simps [of g s d name 0 0])

lemma walk_path_empty_root:
  assumes "read_inode g s 0 = Some d" "num_blocks_to_check g d = 0" "tokens \<noteq> []"
  shows "walk_path g s 0 tokens = None"
  using assms by (cases tokens) (simp_all add: find_entry_empty)

lemma find_inode_by_path_cases:
  "find_inode_by_path g s path = Inl (- 1) \<or> (\<exists>ino. find_inode_by_path g s path = Inr ino)"
  by (simp add: find_inode_by_path_def split: option.splits)

lemma fs_getattr_unresolved:
  "find_inode_by_path g s path = Inl e \<Longrightarrow> fs_getattr g uid gid s path = (Inl (- ENOENT), s)"
  by (simp add: fs_getattr_def)

lemma fs_readdir_unresolved:
  "find_inode_by_path g s path = Inl e \<Longrightarrow>
     fs_readdir g now s path filler buffer = (- ENOENT, buffer, s)"
  by (simp add: fs_readdir_def)

lemma formatted_lookup_fails:
  assumes "INODE_COUNT \<le> 8 * BLOCK_SIZE g" "BLOCK_SIZE g < 2 ^ 32"
    and "4 + ceil_div (INODE_COUNT * INODE_SIZE) (BLOCK_SIZE g) \<le> BLOCK_NUM g"
    and "path \<noteq> []" "hd path = 0x2F" "strtok_all [] (tl path) \<noteq> []"
  shows "find_inode_by_path g (snd (fs_mount g uninit now s0 1)) path = Inl (- 1)"
proof -
  have bs: "0 < BLOCK_SIZE g" using assms(1) by (simp add: INODE_COUNT_def)
  have r: "read_inode g (snd (fs_mount g uninit now s0 1)) 0 = Some (root_inode_at now)"
    by (rule formatted_root_inode [OF assms(1) assms(3)]) simp
  have n: "num_blocks_to_check g (root_inode_at now) = 0"
    by (rule num_blocks_empty [OF bs assms(2)]) (simp add: root_inode_at_def)
  have w: "walk_path g (snd (fs_mount g uninit now s0 1)) 0 (strtok_all [] (tl path)) = None"
    by (rule walk_path_empty_root [OF r n assms(6)])
  have "path \<noteq> [0x2F]" using assms(6) by auto
  then show ?thesis
    using assms(4,5) by (simp add: find_inode_by_path_def w)
qed

text \<open>
  C7, as the code has it. \<open>find_inode_by_path\<close> has no test of the length of a
  component. For a path with a component longer than \<open>MAX_FILENAME_LEN\<close> it returns
  0, when every component matches a directory entry, or the one failure status \<open>-1\<close>,
  never \<open>-ENAMETOOLONG\<close>; \<open>fs_getattr\<close> and \<open>fs_readdir\<close> turn the failure into
  \<open>-ENOENT\<close>. On a freshly formatted file system such a path fails with \<open>-1\<close>.
\<close>

theorem long_component_resolution:
  assumes "path \<noteq> []" "hd path = 0x2F"
    and "t \<in> set (strtok_all [] (tl path))" "MAX_FILENAME_LEN < length t"
  shows "(find_inode_by_path g s path = Inl (- 1)
           \<or> (\<exists>ino. find_inode_by_path g s path = Inr ino))
       \<and> find_inode_by_path g s path \<noteq> Inl (- ENAMETOOLONG)
       \<and> (find_inode_by_path g s path = Inl (- 1) \<longrightarrow>
            fst (fs_getattr g uid gid s path) = Inl (- ENOENT)
            \<and> fs_readdir g now s path filler buffer = (- ENOENT, buffer, s))
       \<and> (INODE_COUNT \<le> 8 * BLOCK_SIZE g \<and> BLOCK_SIZE g < 2 ^ 32
            \<and> 4 + ceil_div (INODE_COUNT * INODE_SIZE) (BLOCK_SIZE g) \<le> BLOCK_NUM g
            \<and> s = snd (fs_mount g uninit now' s0 1) \<longrightarrow>
            find_inode_by_path g s path = Inl (- 1))"
proof (intro conjI impI)
  show "find_inode_by_path g s path = Inl (- 1)
        \<or> (\<exists>ino. find_inode_by_path g s path = Inr ino)"
    by (rule find_inode_by_path_cases)
  then show "find_inode_by_path g s path \<noteq> Inl (- ENAMETOOLONG)"
    by (auto simp: ENAMETOOLONG_def)
next
  assume "find_inode_by_path g s path = Inl (- 1)"
  then show "fst (fs_getattr g uid gid s path) = Inl (- ENOENT)"
    and "fs_readdir g now s path filler buffer = (- ENOENT, buffer, s)"
    by (simp_all add: fs_getattr_unresolved fs_readdir_unresolved)
next
  assume a: "INODE_COUNT \<le> 8 * BLOCK_SIZE g \<and> BLOCK_SIZE g < 2 ^ 32
            \<and> 4 + ceil_div (INODE_COUNT * INODE_SIZE) (BLOCK_SIZE g) \<le> BLOCK_NUM g
            \<and> s = snd (fs_mount g uninit now' s0 1)"
  have ne: "strtok_all [] (tl path) \<noteq> []" using assms(3) by auto
  show "find_inode_by_path g s path = Inl (- 1)"
    using formatted_lookup_fails [of g path uninit now' s0] a assms(1,2) ne by simp
qed

lemma long_name_facts:
  "length long_name = 25" "0x2F \<notin> set long_name" "long_name \<noteq> []"
  "strtok_all [] long_name = [long_name]"
proof -
  show l: "length long_name = 25" by (simp add: long_name_def)
  show s: "0x2F \<notin> set long_name" by (simp add: long_name_def)
  show n: "long_name \<noteq> []" using l by auto
  show "strtok_all [] long_name = [long_name]"
    using strtok_all_one [of long_name "[]"] s n by simp
qed

theorem long_component_counterexample:
  "strtok_all [] (tl (0x2F # long_name)) = [long_name]
   \<and> length long_name = 25 \<and> MAX_FILENAME_LEN = 24
   \<and> find_inode_by_path lab_geometry (sample_state (dir_entry long_name 1) 32)
        (0x2F # long_name) = Inr 1"
proof -
  have "find_inode_by_path lab_geometry (sample_state (dir_entry long_name 1 @ []) 32)
          (0x2F # long_name) = Inr 1"
    by (rule sample_resolve) (simp_all add: long_name_facts DIRENT_INO_OFFSET_def)
  then show ?thesis
    by (simp add: long_name_facts MAX_FILENAME_LEN_def)
qed

theorem long_component_resolution_witness:
  "MAX_FILENAME_LEN < length long_name
   \<and> strtok_all [] (tl (0x2F # long_name)) = [long_name]
   \<and> find_inode_by_path lab_geometry (snd (fs_mount lab_geometry [] 1700000000 full_state 1))
        (0x2F # long_name) = Inl (- 1)
   \<and> fst (fs_getattr lab_geometry 1000 1000
            (snd (fs_mount lab_geometry [] 1700000000 full_state 1)) (0x2F # long_name))
       = Inl (- ENOENT)"
proof -
  have h1: "0x2F # long_name \<noteq> []" "hd (0x2F # long_name) = 0x2F" by simp_all
  have h3: "long_name \<in> set (strtok_all [] (tl (0x2F # long_name)))"
    by (simp add: long_name_facts)
  have h4: "MAX_FILENAME_LEN < length long_name"
    by (simp add: long_name_facts MAX_FILENAME_LEN_def)
  note t = long_component_resolution [OF h1 h3 h4,
      of lab_geometry "snd (fs_mount lab_geometry [] 1700000000 full_state 1)"
         1000 1000 0 "\<lambda>b n. (b, 0)" "()" "[]" 1700000000 full_state]
  have p: "INODE_COUNT \<le> 8 * BLOCK_SIZE lab_geometry \<and> BLOCK_SIZE lab_geometry < 2 ^ 32
            \<and> 4 + ceil_div (INODE_COUNT * INODE_SIZE) (BLOCK_SIZE lab_geometry)
                \<le> BLOCK_NUM lab_geometry
            \<and> snd (fs_mount lab_geometry [] 1700000000 full_state 1)
                = snd (fs_mount lab_geometry [] 1700000000 full_state 1)"
    by (simp add: INODE_COUNT_def INODE_SIZE_def ceil_div_def lab_geometry_def)
  have f: "find_inode_by_path lab_geometry
             (snd (fs_mount lab_geometry [] 1700000000 full_state 1)) (0x2F # long_name)
           = Inl (- 1)"
    by (rule t [THEN conjunct2, THEN conjunct2, THEN conjunct2, THEN mp, OF p])
  have ga: "fst (fs_getattr lab_geometry 1000 1000
            (snd (fs_mount lab_geometry [] 1700000000 full_state 1)) (0x2F # long_name))
       = Inl (- ENOENT)"
    using t [THEN conjunct2, THEN conjunct2, THEN conjunct1, THEN mp, OF f] by simp
  show ?thesis
    using h4 f ga by (simp add: long_name_facts)
qed

text \<open>
  C3. On the sample file system, \<open>/big\<close> is a regular file of thirteen blocks whose
  index block 625 is allocated. \<open>fs_getattr\<close> reports \<open>st_blocks = 104\<close>, the
  \<open>ceil(53248 / 512)\<close> of the data alone: the eight 512-byte units of the index block
  are not counted.
\<close>

theorem fs_getattr_omits_index_blocks:
  "indirect_block_pointer sample_file ! 0 = 625
   \<and> fs_getattr lab_geometry 1000 1000 (sample_state (dir_entry big_name 1) 32)
        (0x2F # big_name)
     = (Inr \<lparr>st_mode = REGMODE, st_nlink = 1, st_uid = 1000, st_gid = 1000,
             st_size = 53248, st_atim = 0, st_mtim = 0, st_ctim = 0,
             st_blksize = 4096, st_blocks = 104\<rparr>,
        sample_state (dir_entry big_name 1) 32)"
proof -
  have "find_inode_by_path lab_geometry (sample_state (dir_entry big_name 1 @ []) 32)
          (0x2F # big_name) = Inr 1"
    by (rule sample_resolve) (simp_all add: big_name_def DIRENT_INO_OFFSET_def)
  then have f: "find_inode_by_path lab_geometry (sample_state (dir_entry big_name 1) 32)
          (0x2F # big_name) = Inr 1"
    by simp
  have bs: "BLOCK_SIZE lab_geometry = 4096" by (simp add: lab_geometry_def)
  have g: "fs_getattr lab_geometry 1000 1000 (sample_state (dir_entry big_name 1) 32)
        (0x2F # big_name)
     = (Inr \<lparr>st_mode = REGMODE, st_nlink = 1, st_uid = 1000, st_gid = 1000,
             st_size = 53248, st_atim = 0, st_mtim = 0, st_ctim = 0,
             st_blksize = 4096, st_blocks = 104\<rparr>,
        sample_state (dir_entry big_name 1) 32)"
    unfolding fs_getattr_def f bs
    by (simp add: sample_read_file sample_file_def REGMODE_def)
  have i: "indirect_block_pointer sample_file ! 0 = 625" by (simp add: sample_file_def)
  show ?thesis using i g by (rule conjI)
qed


section \<open>Claims about fs_readdir\<close>





























section \<open>The stubbed operations\<close>

lemma fs_write_stub: "fs_write g s path buf n off = (0, s)"
  by (simp add: fs_write_def)

lemma fs_read_stub: "fs_read g s path out n off = (0, out, s)"
  by (simp add: fs_read_def)

text \<open>
  C1. On the sample file system \<open>/big\<close> resolves to inode 1, a regular file. Writing
  the one byte \<open>0x68\<close> at offset 0 returns 0 bytes written and changes nothing, and the
  read of one byte at offset 0 that follows returns 0 bytes read and leaves the caller's
  buffer as it was: the byte written is not read back. Both functions do so for every
  path, buffer, length and offset.
\<close>

theorem fs_write_then_fs_read_stub:
  "find_inode_by_path lab_geometry (sample_state (dir_entry big_name 1) 32) (0x2F # big_name)
     = Inr 1
   \<and> read_inode lab_geometry (sample_state (dir_entry big_name 1) 32) 1 = Some sample_file
   \<and> mode sample_file = REGMODE
   \<and> fs_write lab_geometry (sample_state (dir_entry big_name 1) 32) (0x2F # big_name)
        [0x68] 1 0
      = (0, sample_state (dir_entry big_name 1) 32)
   \<and> fs_read lab_geometry
        (snd (fs_write lab_geometry (sample_state (dir_entry big_name 1) 32) (0x2F # big_name)
               [0x68] 1 0))
        (0x2F # big_name) [0] 1 0
      = (0, [0], sample_state (dir_entry big_name 1) 32)"
proof -
  have "find_inode_by_path lab_geometry (sample_state (dir_entry big_name 1 @ []) 32)
          (0x2F # big_name) = Inr 1"
    by (rule sample_resolve) (simp_all add: big_name_def DIRENT_INO_OFFSET_def)
  then show ?thesis
    by (simp add: sample_read_file fs_write_stub fs_read_stub sample_file_def)
qed

text \<open>
  C4. \<open>fs_statfs\<close> returns 0 and reports zero in every field, whatever the geometry and
  the bitmaps on the device.
\<close>

theorem fs_statfs_all_zero:
  "fs_statfs g s path =
     (0, \<lparr>f_bsize = 0, f_blocks = 0, f_bfree = 0, f_bavail = 0,
          f_files = 0, f_ffree = 0, f_favail = 0, f_namemax = 0\<rparr>)"
  by (simp add: fs_statfs_def)

end
